theory Spec2Isabelle
  imports Complex_Main
begin

section \<open>Numbers and vectors\<close>

text \<open>
  The game computes with JavaScript numbers. They are modelled as \<^typ>\<open>real\<close>: every
  product, quotient and square root below is the exact one. Rounding, infinities and NaN
  of the IEEE doubles are outside the model.

  \<open>Phaser.Math.Vector2\<close> is a pair \<open>(x, y)\<close>. Its methods \<open>length\<close>, \<open>scale\<close> and
  \<open>normalize\<close> and the function \<open>Phaser.Math.Distance.Between\<close> belong to the engine;
  they are written out here as the engine defines them (\<open>normalize\<close> leaves the zero
  vector alone).
\<close>

type_synonym Vector2 = "real \<times> real"

definition vlength :: "Vector2 \<Rightarrow> real" where
  "vlength v = sqrt (fst v * fst v + snd v * snd v)"

definition vscale :: "real \<Rightarrow> Vector2 \<Rightarrow> Vector2" where
  "vscale k v = (fst v * k, snd v * k)"

definition vnormalize :: "Vector2 \<Rightarrow> Vector2" where
  "vnormalize v =
     (let len = fst v * fst v + snd v * snd v
      in if len > 0 then (fst v * (1 / sqrt len), snd v * (1 / sqrt len)) else v)"

definition DistanceBetween :: "real \<Rightarrow> real \<Rightarrow> real \<Rightarrow> real \<Rightarrow> real" where
  "DistanceBetween x1 y1 x2 y2 =
     (let dx = x1 - x2; dy = y1 - y2 in sqrt (dx * dx + dy * dy))"

section \<open>Configuration\<close>

text \<open>
  \<open>gameConfig.json\<close> is read by every class but is not among the sources, so its
  values are a parameter of the model: one record with the fields the modelled code reads
  (from its \<open>ballConfig\<close>, \<open>playerConfig\<close>, \<open>fieldConfig\<close> and \<open>screenSize\<close>).
\<close>

record Config =
  maxSpeed :: real
  normalKickForce :: real
  slideKickForce :: real
  jumpKickForce :: real
  runningKickForce :: real
  moveSpeed :: real
  jumpPower :: real
  slideSpeed :: real
  slideDuration :: real
  kickDuration :: real
  stunDuration :: real
  goalWidth :: real
  goalHeight :: real
  screenWidth :: real

section \<open>Ball\<close>

text \<open>
  An Arcade body carries the velocity and the angular velocity. A sprite's \<open>body\<close> may be
  null, and the source guards most uses with \<open>if (!this.body) return\<close>, so the body is
  an option.
\<close>

record Body =
  velocity :: Vector2
  angularVelocity :: real

record Ball =
  b_x :: real
  b_y :: real
  b_body :: "Body option"

datatype KickType = normal | slide | jump

text \<open>
  \<open>Ball.kick\<close>, the \<open>switch\<close> on the kick type: the value of \<open>finalForce\<close> when the
  \<open>switch\<close> is left, before the speed limit is applied.
\<close>

definition kick_finalForce :: "KickType \<Rightarrow> Vector2 \<Rightarrow> real \<Rightarrow> Vector2" where
  "kick_finalForce kickType force distance =
     (case kickType of
        slide \<Rightarrow>
          (let f = vscale 1.5 force in (fst f, snd f * 0.3))
      | jump \<Rightarrow>
          (let y' = \<bar>snd force\<bar> * (- 2.0) in (fst force * 0.8, y'))
      | normal \<Rightarrow>
          (let distanceMultiplier = min (distance / 150) 2.0;
               f = vscale (0.8 + distanceMultiplier * 0.4) force;
               upwardBoost = max 200 (distance * 1.5)
           in (fst f, - upwardBoost)))"

text \<open>
  \<open>Ball.kick\<close>, the block "Apply maximum speed limit". The length, the normalisation and
  the scaling are the exact ones here. The source computes them in doubles, each step
  rounded, so where the limit cuts the force the vector it sets agrees with this one up to
  rounding only.
\<close>

definition kick_limit :: "Config \<Rightarrow> Vector2 \<Rightarrow> Vector2" where
  "kick_limit cfg finalForce =
     (let magnitude = vlength finalForce
      in if magnitude > maxSpeed cfg * 1.2
         then vscale (maxSpeed cfg * 1.2) (vnormalize finalForce)
         else finalForce)"

text \<open>
  \<open>Ball.kick(force, playerHeight, kickType, distance)\<close>. The spin uses \<open>magnitude\<close>,
  which the source computes before the limit, and the sign of the x component of the
  \<open>force\<close> argument.
\<close>

definition kick :: "Config \<Rightarrow> Vector2 \<Rightarrow> real \<Rightarrow> KickType \<Rightarrow> real \<Rightarrow> Ball \<Rightarrow> Ball" where
  "kick cfg force playerHeight kickType distance b =
     (case b_body b of
        None \<Rightarrow> b
      | Some body \<Rightarrow>
          (let finalForce = kick_finalForce kickType force distance;
               magnitude = vlength finalForce;
               limited = kick_limit cfg finalForce;
               spinSpeed = magnitude * 0.02
           in b\<lparr>b_body := Some (body\<lparr>velocity := limited,
                  angularVelocity := (if fst force > 0 then spinSpeed else - spinSpeed)\<rparr>)\<rparr>))"

text \<open>\<open>Ball.isMoving\<close>, \<open>Ball.getVelocity\<close> and \<open>Ball.resetPosition\<close>.\<close>

definition isMoving :: "Ball \<Rightarrow> bool" where
  "isMoving b = (case b_body b of None \<Rightarrow> False | Some body \<Rightarrow> vlength (velocity body) > 20)"

definition getVelocity :: "Ball \<Rightarrow> Vector2" where
  "getVelocity b = (case b_body b of None \<Rightarrow> (0, 0) | Some body \<Rightarrow> velocity body)"

definition resetPosition :: "real \<Rightarrow> real \<Rightarrow> Ball \<Rightarrow> Ball" where
  "resetPosition x y b =
     (let b1 = b\<lparr>b_x := x, b_y := y\<rparr>
      in case b_body b1 of
           None \<Rightarrow> b1
         | Some body \<Rightarrow> b1\<lparr>b_body := Some (body\<lparr>velocity := (0, 0), angularVelocity := 0\<rparr>)\<rparr>)"

section \<open>Player\<close>

text \<open>
  The fields of \<open>Player\<close> that carry game state. Textures, animations, tints, sounds and
  the debug clocks (\<open>lastAnimationChange\<close>, \<open>lastDebugTime\<close>) only drive the display and
  are left out, as are the calls that only touch them (\<open>updateAnimation\<close>, \<open>play\<close>,
  \<open>setTint\<close>, the body-size correction at the head of \<open>update\<close>).

  A jump timer is a \<open>Phaser.Time.TimerEvent\<close> made by \<open>delayedCall\<close>: the field holds the
  time at which the call is due, or \<open>None\<close> for \<open>null\<close>. The engine's clock runs the
  callback when the time has come; the field keeps its value afterwards, as the source
  only resets it in \<open>clearJumpTimers\<close>.
\<close>

datatype PlayerSide = left | right

datatype PlayerState = idle | walking | jumping | sliding | kicking | stunned

datatype error = TypeError

type_synonym TimerEvent = real

record Player =
  playerSide :: PlayerSide
  playerState :: PlayerState
  isStunned :: bool
  stunTimer :: real
  slideTimer :: real
  kickTimer :: real
  facingRight :: bool
  isOnGround :: bool
  kickCooldown :: real
  jumpFallTimer :: "TimerEvent option"
  jumpLandTimer :: "TimerEvent option"
  p_x :: real
  p_y :: real
  p_body :: "Body option"

definition setVelocityX :: "real \<Rightarrow> Body \<Rightarrow> Body" where
  "setVelocityX vx body = body\<lparr>velocity := (vx, snd (velocity body))\<rparr>"

definition setVelocityY :: "real \<Rightarrow> Body \<Rightarrow> Body" where
  "setVelocityY vy body = body\<lparr>velocity := (fst (velocity body), vy)\<rparr>"

definition startSlide :: "Config \<Rightarrow> Player \<Rightarrow> Player" where
  "startSlide cfg p = p\<lparr>playerState := sliding, slideTimer := slideDuration cfg * 1000\<rparr>"

definition startKick :: "Config \<Rightarrow> Player \<Rightarrow> Player" where
  "startKick cfg p =
     p\<lparr>playerState := kicking, kickTimer := kickDuration cfg * 1000, kickCooldown := 500\<rparr>"

definition clearJumpTimers :: "Player \<Rightarrow> Player" where
  "clearJumpTimers p = p\<lparr>jumpFallTimer := None, jumpLandTimer := None\<rparr>"

text \<open>
  The two callbacks handed to \<open>delayedCall\<close>, in \<open>handleInput\<close> and again in
  \<open>updateTimers\<close> with the same bodies. Both do nothing unless the state is \<open>jumping\<close>.
  The callbacks use the \<open>body\<close> captured when they were scheduled, which was not null.
\<close>

definition jumpFallCallback :: "Config \<Rightarrow> Player \<Rightarrow> Player" where
  "jumpFallCallback cfg p =
     (if playerState p = jumping
      then p\<lparr>p_body := map_option (setVelocityY (jumpPower cfg * 0.8)) (p_body p)\<rparr>
      else p)"

definition jumpLandCallback :: "Player \<Rightarrow> Player" where
  "jumpLandCallback p =
     (if playerState p = jumping
      then p\<lparr>p_y := 648, p_body := map_option (setVelocityY 0) (p_body p), playerState := idle\<rparr>
      else p)"

text \<open>\<open>Player.updateTimers\<close>, one definition for each of its four blocks.\<close>

definition updateStunTimer :: "real \<Rightarrow> Player \<Rightarrow> Player" where
  "updateStunTimer deltaTime p =
     (if stunTimer p > 0
      then (let p1 = p\<lparr>stunTimer := stunTimer p - deltaTime\<rparr>
            in if stunTimer p1 \<le> 0
               then (let p2 = p1\<lparr>isStunned := False\<rparr>
                     in if playerState p2 = stunned then p2\<lparr>playerState := idle\<rparr> else p2)
               else p1)
      else p)"

definition updateSlideTimer :: "real \<Rightarrow> Player \<Rightarrow> Player" where
  "updateSlideTimer deltaTime p =
     (if slideTimer p > 0
      then (let p1 = p\<lparr>slideTimer := slideTimer p - deltaTime\<rparr>
            in if slideTimer p1 \<le> 0 \<and> playerState p1 = sliding
               then p1\<lparr>playerState := idle\<rparr>
               else p1)
      else p)"

text \<open>
  The kick timer. When it expires in the air and no jump timer is held, the source reads
  \<open>body.velocity.y\<close> of an unguarded \<open>this.body\<close>: a null body is a \<open>TypeError\<close>.
\<close>

definition updateKickTimer :: "real \<Rightarrow> real \<Rightarrow> Player \<Rightarrow> error + Player" where
  "updateKickTimer now deltaTime p =
     (if kickTimer p > 0
      then (let p1 = p\<lparr>kickTimer := kickTimer p - deltaTime\<rparr>
            in if kickTimer p1 \<le> 0 \<and> playerState p1 = kicking
               then (if \<not> isOnGround p1
                     then (let p2 = p1\<lparr>playerState := jumping\<rparr>
                           in if jumpFallTimer p2 = None \<and> jumpLandTimer p2 = None
                              then (case p_body p2 of
                                      None \<Rightarrow> Inl TypeError
                                    | Some body \<Rightarrow>
                                        Inr (p2\<lparr>jumpFallTimer :=
                                                  (if snd (velocity body) < 0
                                                   then Some (now + 300)
                                                   else jumpFallTimer p2),
                                                jumpLandTimer := Some (now + 600)\<rparr>))
                              else Inr p2)
                     else Inr (p1\<lparr>playerState := idle\<rparr>))
               else Inr p1)
      else Inr p)"

definition updateKickCooldown :: "real \<Rightarrow> Player \<Rightarrow> Player" where
  "updateKickCooldown deltaTime p =
     (if kickCooldown p > 0 then p\<lparr>kickCooldown := kickCooldown p - deltaTime\<rparr> else p)"

definition updateTimers :: "real \<Rightarrow> real \<Rightarrow> Player \<Rightarrow> error + Player" where
  "updateTimers now deltaTime p =
     (case updateKickTimer now deltaTime (updateSlideTimer deltaTime (updateStunTimer deltaTime p)) of
        Inl e \<Rightarrow> Inl e
      | Inr p3 \<Rightarrow> Inr (updateKickCooldown deltaTime p3))"

text \<open>\<open>Player.updateGroundStatus\<close>; \<open>Math.sign\<close> is \<^const>\<open>sgn\<close>.\<close>

definition updateGroundStatus :: "Player \<Rightarrow> Player" where
  "updateGroundStatus p =
     (case p_body p of
        None \<Rightarrow> p
      | Some body \<Rightarrow>
          (let groundLevel = 648;
               p1 = (if playerState p = jumping
                     then p\<lparr>isOnGround := False\<rparr>
                     else p\<lparr>isOnGround := (p_y p \<ge> groundLevel - 10)\<rparr>);
               p2 = (if p_y p1 > groundLevel + 10 then p1\<lparr>p_y := groundLevel\<rparr> else p1);
               leftBound = 10;
               rightBound = 1142;
               p3 = (if p_x p2 < leftBound then p2\<lparr>p_x := leftBound\<rparr>
                     else if p_x p2 > rightBound then p2\<lparr>p_x := rightBound\<rparr>
                     else p2);
               body1 = (if \<bar>fst (velocity body)\<bar> > 800
                        then setVelocityX (sgn (fst (velocity body)) * 800) body
                        else body);
               body2 = (if \<bar>snd (velocity body1)\<bar> > 1200
                        then setVelocityY (sgn (snd (velocity body1)) * 1200) body1
                        else body1)
           in p3\<lparr>p_body := Some body2\<rparr>))"

definition handleStunnedState :: "Player \<Rightarrow> Player" where
  "handleStunnedState p = p\<lparr>p_body := map_option (setVelocityX 0) (p_body p)\<rparr>"

definition handleSlidingState :: "Config \<Rightarrow> Player \<Rightarrow> Player" where
  "handleSlidingState cfg p =
     (let slideVelocity = (if facingRight p then slideSpeed cfg else - slideSpeed cfg)
      in p\<lparr>p_body := map_option (setVelocityX slideVelocity) (p_body p)\<rparr>)"

definition handleKickingState :: "Player \<Rightarrow> Player" where
  "handleKickingState p = p\<lparr>p_body := map_option (setVelocityX 0) (p_body p)\<rparr>"

text \<open>
  \<open>Player.handleJumpingState\<close> reads only the left and right keys. It calls
  \<open>body.setVelocityX\<close> on an unguarded body.
\<close>

definition handleJumpingState :: "Config \<Rightarrow> bool \<Rightarrow> bool \<Rightarrow> Player \<Rightarrow> error + Player" where
  "handleJumpingState cfg leftKey rightKey p =
     (let velocityX = (if leftKey \<and> \<not> rightKey then - moveSpeed cfg
                       else if rightKey \<and> \<not> leftKey then moveSpeed cfg
                       else 0);
          p1 = (if leftKey \<and> \<not> rightKey then p\<lparr>facingRight := False\<rparr>
                else if rightKey \<and> \<not> leftKey then p\<lparr>facingRight := True\<rparr>
                else p)
      in case p_body p1 of
           None \<Rightarrow> Inl TypeError
         | Some body \<Rightarrow> Inr (p1\<lparr>p_body := Some (setVelocityX velocityX body)\<rparr>))"

text \<open>
  \<open>Player.handleInput\<close>. After the guards and the horizontal movement, each of the three
  prioritised action blocks is a step on the pair of the player and the local flag
  \<open>actionTaken\<close>; the last block, the air kick, does not read the flag.
\<close>

definition inputMove :: "Config \<Rightarrow> bool \<Rightarrow> bool \<Rightarrow> Body \<Rightarrow> Player \<Rightarrow> Player" where
  "inputMove cfg leftKey rightKey body p =
     (let velocityX = (if leftKey \<and> \<not> rightKey then - moveSpeed cfg
                       else if rightKey \<and> \<not> leftKey then moveSpeed cfg
                       else 0);
          p1 = (if leftKey \<and> \<not> rightKey then p\<lparr>facingRight := False\<rparr>
                else if rightKey \<and> \<not> leftKey then p\<lparr>facingRight := True\<rparr>
                else p)
      in p1\<lparr>p_body := Some (setVelocityX velocityX body)\<rparr>)"

definition inputJump :: "Config \<Rightarrow> real \<Rightarrow> bool \<Rightarrow> Player \<times> bool \<Rightarrow> Player \<times> bool" where
  "inputJump cfg now upKey pa =
     (let p = fst pa; actionTaken = snd pa
      in if upKey \<and> isOnGround p \<and> playerState p = idle \<and> \<not> actionTaken
         then ((clearJumpTimers
                  (p\<lparr>playerState := jumping,
                      p_body := map_option (setVelocityY (- jumpPower cfg)) (p_body p)\<rparr>))
               \<lparr>jumpFallTimer := Some (now + 300), jumpLandTimer := Some (now + 600)\<rparr>,
               True)
         else (p, actionTaken))"

definition inputSlide :: "Config \<Rightarrow> bool \<Rightarrow> Player \<times> bool \<Rightarrow> Player \<times> bool" where
  "inputSlide cfg downKey pa =
     (let p = fst pa; actionTaken = snd pa
      in if downKey \<and> isOnGround p \<and> slideTimer p \<le> 0 \<and> playerState p = idle \<and> \<not> actionTaken
         then (startSlide cfg p, True)
         else (p, actionTaken))"

definition inputKick :: "Config \<Rightarrow> bool \<Rightarrow> Player \<times> bool \<Rightarrow> Player \<times> bool" where
  "inputKick cfg kickKey pa =
     (let p = fst pa; actionTaken = snd pa
      in if kickKey \<and> kickCooldown p \<le> 0 \<and> playerState p \<noteq> sliding \<and> \<not> actionTaken
         then (startKick cfg p, True)
         else (p, actionTaken))"

definition inputAirKick :: "Config \<Rightarrow> bool \<Rightarrow> Player \<Rightarrow> Player" where
  "inputAirKick cfg kickKey p =
     (if kickKey \<and> kickCooldown p \<le> 0 \<and> playerState p = jumping
      then p\<lparr>playerState := kicking, kickTimer := kickDuration cfg * 1000, kickCooldown := 500\<rparr>
      else p)"

definition handleInput :: "Config \<Rightarrow> real \<Rightarrow> bool \<Rightarrow> bool \<Rightarrow> bool \<Rightarrow> bool \<Rightarrow> bool \<Rightarrow> Player \<Rightarrow> Player" where
  "handleInput cfg now leftKey rightKey upKey downKey kickKey p =
     (case p_body p of
        None \<Rightarrow> p
      | Some body \<Rightarrow>
          if isStunned p then p
          else if playerState p = sliding then p
          else inputAirKick cfg kickKey
                 (fst (inputKick cfg kickKey
                        (inputSlide cfg downKey
                          (inputJump cfg now upKey
                            (inputMove cfg leftKey rightKey body p, False))))))"

text \<open>
  \<open>Player.update\<close>: the timers, the ground status, then one handler chosen by the state.
  \<open>handleInput\<close> is reached only when the player is neither stunned, sliding, kicking nor
  jumping.
\<close>

definition update :: "Config \<Rightarrow> real \<Rightarrow> real \<Rightarrow> bool \<Rightarrow> bool \<Rightarrow> bool \<Rightarrow> bool \<Rightarrow> bool \<Rightarrow> Player \<Rightarrow> error + Player" where
  "update cfg now deltaTime leftKey rightKey upKey downKey kickKey p =
     (case updateTimers now deltaTime p of
        Inl e \<Rightarrow> Inl e
      | Inr p1 \<Rightarrow>
          (let p2 = updateGroundStatus p1
           in if isStunned p2 then Inr (handleStunnedState p2)
              else if playerState p2 = sliding then Inr (handleSlidingState cfg p2)
              else if playerState p2 = kicking then Inr (handleKickingState p2)
              else if playerState p2 = jumping then handleJumpingState cfg leftKey rightKey p2
              else Inr (handleInput cfg now leftKey rightKey upKey downKey kickKey p2)))"

definition stun :: "Config \<Rightarrow> Player \<Rightarrow> Player" where
  "stun cfg p =
     p\<lparr>isStunned := True, stunTimer := stunDuration cfg * 1000, playerState := stunned,
       p_body := map_option (setVelocityX 0) (p_body p)\<rparr>"

definition isSliding :: "Player \<Rightarrow> bool" where
  "isSliding p = (playerState p = sliding)"

definition isKicking :: "Player \<Rightarrow> bool" where
  "isKicking p = (playerState p = kicking)"

definition getFacingDirection :: "Player \<Rightarrow> PlayerSide" where
  "getFacingDirection p = (if facingRight p then right else left)"

definition getKickForce :: "Config \<Rightarrow> Player \<Rightarrow> Vector2" where
  "getKickForce cfg p =
     (let speedX = (case p_body p of None \<Rightarrow> 0 | Some body \<Rightarrow> \<bar>fst (velocity body)\<bar>);
          isRunning = (speedX > 150);
          isInAir = (\<not> isOnGround p);
          isSliding' = (playerState p = sliding);
          kickForce = (if isSliding' then slideKickForce cfg
                       else if isInAir then jumpKickForce cfg
                       else if isRunning then runningKickForce cfg
                       else normalKickForce cfg);
          verticalForce = (if isSliding' then - 50
                           else if isInAir then - 150
                           else if isRunning then - 120
                           else - 100);
          kickDirection = (if facingRight p then 1 else - 1)
      in (kickDirection * kickForce, verticalForce))"

definition triggerKick :: "Config \<Rightarrow> Player \<Rightarrow> Player" where
  "triggerKick cfg p = (if kickCooldown p \<le> 0 then startKick cfg p else p)"

record KickInfo =
  force :: Vector2
  type :: KickType
  distance :: real

definition getKickInfo :: "Config \<Rightarrow> Player \<Rightarrow> KickInfo" where
  "getKickInfo cfg p =
     (let speedX = (case p_body p of None \<Rightarrow> 0 | Some body \<Rightarrow> \<bar>fst (velocity body)\<bar>);
          isRunning = (speedX > 150);
          isSliding' = (playerState p = sliding);
          isInAir = (\<not> isOnGround p)
      in \<lparr>force = getKickForce cfg p,
          type = (if isSliding' then slide else if isInAir then jump else normal),
          distance = (if isSliding' then 200 else if isInAir then 120
                      else if isRunning then 180 else 100)\<rparr>)"

text \<open>\<open>Player.resetToKickoff\<close>.\<close>

definition player_resetToKickoff :: "Player \<Rightarrow> Player" where
  "player_resetToKickoff p =
     (clearJumpTimers
        (p\<lparr>p_body := map_option (\<lambda>body. body\<lparr>velocity := (0, 0), angularVelocity := 0\<rparr>) (p_body p),
           isStunned := False, stunTimer := 0, slideTimer := 0, kickTimer := 0,
           kickCooldown := 0, playerState := idle\<rparr>))
     \<lparr>facingRight := (playerSide p = left)\<rparr>"

section \<open>AI controller\<close>

text \<open>
  \<open>AIController.makeDecision\<close>. \<open>cameraWidth\<close> is \<open>scene.cameras.main.width\<close> and
  \<open>random\<close> the one value \<open>Math.random()\<close> returns in the branch taken.
\<close>

datatype AIAction = action_idle | action_chase | action_defend | action_attack

record AIController =
  currentAction :: AIAction
  actionTimer :: real
  ai_jumpTimer :: real
  ai_kickTimer :: real
  lastDecisionTime :: real

definition makeDecision :: "real \<Rightarrow> real \<Rightarrow> Player \<Rightarrow> Ball \<Rightarrow> AIController \<Rightarrow> AIController" where
  "makeDecision cameraWidth random p b ai =
     (let distanceToBall = DistanceBetween (p_x p) (p_y p) (b_x b) (b_y b);
          ballVelocity = getVelocity b;
          isRightSide = (playerSide p = right);
          ownGoalX = (if isRightSide then cameraWidth * 0.9 else cameraWidth * 0.1)
      in if distanceToBall < 80 \<and> isMoving b = False
         then ai\<lparr>currentAction := action_attack, actionTimer := 1000 + random * 500\<rparr>
         else if distanceToBall < 120 \<and> vlength ballVelocity < 100
         then ai\<lparr>currentAction := action_chase, actionTimer := 800 + random * 400\<rparr>
         else if b_x b < ownGoalX + 200 \<and> b_x b > ownGoalX - 200
         then ai\<lparr>currentAction := action_defend, actionTimer := 600 + random * 300\<rparr>
         else ai\<lparr>currentAction := action_idle, actionTimer := 400 + random * 200\<rparr>)"

section \<open>Game scene\<close>

text \<open>
  The state of \<open>GameScene\<close> that its handlers read and write. \<open>uiPaused\<close> is what
  \<open>gameUI.isPaused()\<close> returns. A \<open>Goal\<close> is used through its position only. The time
  \<open>now\<close> is \<open>this.time.now\<close>. Sounds, tweens, texts, logging and the UI's score display are
  left out; \<open>ballBody.velocity.x.toFixed\<close> in a log line of \<open>handlePlayerBallContact\<close> is
  kept as the null dereference it is.
\<close>

datatype PlayerId = P1 | P2

record Goal =
  g_x :: real
  g_y :: real

record GameScene =
  isGameActive :: bool
  uiPaused :: bool
  player1Score :: nat
  player2Score :: nat
  lastManualCollisionP1 :: real
  lastManualCollisionP2 :: real
  lastGoalTime :: real
  groundTopY :: real
  player1 :: Player
  player2 :: Player
  ball :: Ball
  leftGoal :: Goal
  rightGoal :: Goal

definition getPlayer :: "PlayerId \<Rightarrow> GameScene \<Rightarrow> Player" where
  "getPlayer who s = (case who of P1 \<Rightarrow> player1 s | P2 \<Rightarrow> player2 s)"

definition setPlayer :: "PlayerId \<Rightarrow> Player \<Rightarrow> GameScene \<Rightarrow> GameScene" where
  "setPlayer who p s = (case who of P1 \<Rightarrow> s\<lparr>player1 := p\<rparr> | P2 \<Rightarrow> s\<lparr>player2 := p\<rparr>)"

text \<open>
  \<open>handlePlayerBallContact\<close>: the local \<open>isProperKick\<close>, as the source's
  \<open>if / else if / else\<close> sets it.
\<close>

definition isProperKick :: "Player \<Rightarrow> Ball \<Rightarrow> bool" where
  "isProperKick player b =
     (let playerFacing = getFacingDirection player;
          ballRelativeToPlayer = b_x b - p_x player
      in if playerFacing = right \<and> ballRelativeToPlayer > 0 then True
         else if playerFacing = left \<and> ballRelativeToPlayer < 0 then True
         else False)"

definition handlePlayerBallContact :: "Config \<Rightarrow> PlayerId \<Rightarrow> GameScene \<Rightarrow> error + GameScene" where
  "handlePlayerBallContact cfg who s =
     (if \<not> isGameActive s \<or> uiPaused s then Inr s
      else case b_body (ball s) of
             None \<Rightarrow> Inl TypeError
           | Some ballBody \<Rightarrow>
               (let player = getPlayer who s;
                    ballRelativeToPlayer = b_x (ball s) - p_x player
                in if isProperKick player (ball s)
                   then (let kickInfo = getKickInfo cfg player;
                             ballDistance = DistanceBetween (p_x player) (p_y player)
                                              (b_x (ball s)) (b_y (ball s));
                             s1 = s\<lparr>ball := kick cfg (force kickInfo) (p_y player)
                                               (type kickInfo) ballDistance (ball s)\<rparr>
                         in if \<not> isSliding player \<and> \<not> isKicking player
                            then Inr (setPlayer who (triggerKick cfg player) s1)
                            else Inr s1)
                   else (let bounceForceX = (if ballRelativeToPlayer > 0 then 200 else - 200);
                             bounceForceY = - 100
                         in Inr (s\<lparr>ball := (ball s)\<lparr>b_body :=
                                   Some (ballBody\<lparr>velocity := (bounceForceX, bounceForceY)\<rparr>)\<rparr>\<rparr>))))"

definition handlePlayerCollision :: "Config \<Rightarrow> GameScene \<Rightarrow> GameScene" where
  "handlePlayerCollision cfg s =
     (if \<not> isGameActive s \<or> uiPaused s then s
      else if isSliding (player1 s) \<and> \<not> isSliding (player2 s)
           then s\<lparr>player2 := stun cfg (player2 s)\<rparr>
      else if isSliding (player2 s) \<and> \<not> isSliding (player1 s)
           then s\<lparr>player1 := stun cfg (player1 s)\<rparr>
      else s)"

text \<open>
  \<open>handleGoal(scoringPlayer)\<close>. \<open>this.lastGoalTime && \<dots>\<close> tests the number for
  truthiness: zero does not pass. The delayed call that ends the celebration is the
  separate step \<open>resetToKickoff\<close> below.
\<close>

definition stopBody :: "Body option \<Rightarrow> Body option" where
  "stopBody body = map_option (\<lambda>b. b\<lparr>velocity := (0, 0)\<rparr>) body"

definition handleGoal :: "PlayerId \<Rightarrow> real \<Rightarrow> GameScene \<Rightarrow> GameScene" where
  "handleGoal scoringPlayer now s =
     (if \<not> isGameActive s then s
      else if lastGoalTime s \<noteq> 0 \<and> now - lastGoalTime s < 1000 then s
      else (let s1 = s\<lparr>lastGoalTime := now, isGameActive := False,
                       player1 := (player1 s)\<lparr>p_body := stopBody (p_body (player1 s))\<rparr>,
                       player2 := (player2 s)\<lparr>p_body := stopBody (p_body (player2 s))\<rparr>,
                       ball := (ball s)\<lparr>b_body := stopBody (b_body (ball s))\<rparr>\<rparr>
            in if scoringPlayer = P1
               then s1\<lparr>player1Score := player1Score s1 + 1\<rparr>
               else s1\<lparr>player2Score := player2Score s1 + 1\<rparr>))"

text \<open>
  \<open>resetToKickoff\<close>, up to its delayed call, and the callback of that call
  (\<open>kickoffDelayOver\<close>), which is the one place that sets the active flag again during a
  match.
\<close>

definition resetToKickoff :: "Config \<Rightarrow> GameScene \<Rightarrow> GameScene" where
  "resetToKickoff cfg s =
     (let centerX = screenWidth cfg / 2;
          ballRadius = 25;
          ballBottomY = groundTopY s - 1;
          ballCenterY = ballBottomY - ballRadius;
          player1X = centerX - 200;
          player2X = centerX + 200;
          playerY = groundTopY s
      in s\<lparr>isGameActive := False,
           ball := resetPosition centerX ballCenterY (ball s),
           player1 := player_resetToKickoff ((player1 s)\<lparr>p_x := player1X, p_y := playerY\<rparr>),
           player2 := player_resetToKickoff ((player2 s)\<lparr>p_x := player2X, p_y := playerY\<rparr>)\<rparr>)"

definition kickoffDelayOver :: "GameScene \<Rightarrow> GameScene" where
  "kickoffDelayOver s = s\<lparr>isGameActive := True\<rparr>"

text \<open>
  \<open>checkManualCollisions\<close>. Positions and both distances are read once at the top; each
  goal test reads \<open>lastGoalTime\<close> afresh.
\<close>

definition manualGoalCheck :: "Config \<Rightarrow> real \<Rightarrow> real \<Rightarrow> real \<Rightarrow> GameScene \<Rightarrow> GameScene" where
  "manualGoalCheck cfg now ballX ballY s =
     (let leftGoalX = g_x (leftGoal s);
          rightGoalX = g_x (rightGoal s);
          goalY = g_y (leftGoal s);
          s1 = (if ballX \<le> leftGoalX + 20 \<and> ballY \<ge> goalY - goalHeight cfg - 20 \<and> ballY \<le> goalY + 20
                then (if now - lastGoalTime s > 1000 then handleGoal P2 now s else s)
                else s)
      in if ballX \<ge> rightGoalX - 20 \<and> ballY \<ge> goalY - goalHeight cfg - 20 \<and> ballY \<le> goalY + 20
         then (if now - lastGoalTime s1 > 1000 then handleGoal P1 now s1 else s1)
         else s1)"

definition checkManualCollisions :: "Config \<Rightarrow> real \<Rightarrow> GameScene \<Rightarrow> error + GameScene" where
  "checkManualCollisions cfg now s =
     (if \<not> isGameActive s \<or> uiPaused s then Inr s
      else
        (let ballX = b_x (ball s);
             ballY = b_y (ball s);
             collisionDistance = 70;
             distToP1 = sqrt ((ballX - p_x (player1 s))\<^sup>2 + (ballY - p_y (player1 s))\<^sup>2);
             distToP2 = sqrt ((ballX - p_x (player2 s))\<^sup>2 + (ballY - p_y (player2 s))\<^sup>2);
             r1 = (if distToP1 < collisionDistance \<and> now - lastManualCollisionP1 s > 200
                   then handlePlayerBallContact cfg P1 (s\<lparr>lastManualCollisionP1 := now\<rparr>)
                   else Inr s)
         in case r1 of
              Inl e \<Rightarrow> Inl e
            | Inr s1 \<Rightarrow>
                (let r2 = (if distToP2 < collisionDistance \<and> now - lastManualCollisionP2 s1 > 200
                           then handlePlayerBallContact cfg P2 (s1\<lparr>lastManualCollisionP2 := now\<rparr>)
                           else Inr s1)
                 in case r2 of
                      Inl e \<Rightarrow> Inl e
                    | Inr s2 \<Rightarrow> Inr (manualGoalCheck cfg now ballX ballY s2))))"

text \<open>
  The notifications the scene reacts to, as \<open>setupPhysics\<close> and \<open>update\<close> wire them: a ball
  in the left goal's zone scores for player 2, one in the right goal's zone for player 1.
\<close>

datatype Trigger =
    LeftGoalZoneOverlap
  | RightGoalZoneOverlap
  | BallPlayerOverlap PlayerId
  | PlayersOverlap
  | ManualCollisionCheck

definition fire :: "Config \<Rightarrow> real \<times> Trigger \<Rightarrow> GameScene \<Rightarrow> error + GameScene" where
  "fire cfg ev s =
     (case snd ev of
        LeftGoalZoneOverlap \<Rightarrow> Inr (handleGoal P2 (fst ev) s)
      | RightGoalZoneOverlap \<Rightarrow> Inr (handleGoal P1 (fst ev) s)
      | BallPlayerOverlap who \<Rightarrow> handlePlayerBallContact cfg who s
      | PlayersOverlap \<Rightarrow> Inr (handlePlayerCollision cfg s)
      | ManualCollisionCheck \<Rightarrow> checkManualCollisions cfg (fst ev) s)"

fun fireAll :: "Config \<Rightarrow> (real \<times> Trigger) list \<Rightarrow> GameScene \<Rightarrow> error + GameScene" where
  "fireAll cfg [] s = Inr s"
| "fireAll cfg (ev # evs) s =
     (case fire cfg ev s of Inl e \<Rightarrow> Inl e | Inr s' \<Rightarrow> fireAll cfg evs s')"

section \<open>Example inputs\<close>

text \<open>
  A configuration, a scene and a player in mid-jump, used to run the model on concrete
  inputs. The configuration values are examples, \<open>gameConfig.json\<close> not being at hand. The
  scene follows the layout \<open>create\<close> computes for a screen of 1152 by 768: ground top at
  648, goals at x = 80 and x = 1072, players 200 either side of the centre 576, the ball's
  centre 26 above the ground. The handlers are functions of the scene, and are applied to
  it as it stands, whether or not the engine would report an overlap there.
\<close>

definition testConfig :: Config where
  "testConfig = \<lparr>maxSpeed = 600, normalKickForce = 400, slideKickForce = 600,
     jumpKickForce = 450, runningKickForce = 550, moveSpeed = 300, jumpPower = 500,
     slideSpeed = 450, slideDuration = 0.5, kickDuration = 0.25, stunDuration = 0.8,
     goalWidth = 120, goalHeight = 80, screenWidth = 1152\<rparr>"

definition testBall :: Ball where
  "testBall = \<lparr>b_x = 576, b_y = 622, b_body = Some \<lparr>velocity = (0, 0), angularVelocity = 0\<rparr>\<rparr>"

definition testPlayer1 :: Player where
  "testPlayer1 = \<lparr>playerSide = left, playerState = idle, isStunned = False, stunTimer = 0,
     slideTimer = 0, kickTimer = 0, facingRight = True, isOnGround = True, kickCooldown = 0,
     jumpFallTimer = None, jumpLandTimer = None, p_x = 376, p_y = 648,
     p_body = Some \<lparr>velocity = (0, 0), angularVelocity = 0\<rparr>\<rparr>"

definition testPlayer2 :: Player where
  "testPlayer2 = \<lparr>playerSide = right, playerState = idle, isStunned = False, stunTimer = 0,
     slideTimer = 0, kickTimer = 0, facingRight = False, isOnGround = True, kickCooldown = 0,
     jumpFallTimer = None, jumpLandTimer = None, p_x = 776, p_y = 648,
     p_body = Some \<lparr>velocity = (0, 0), angularVelocity = 0\<rparr>\<rparr>"

definition testScene :: GameScene where
  "testScene = \<lparr>isGameActive = True, uiPaused = False, player1Score = 0, player2Score = 0,
     lastManualCollisionP1 = 0, lastManualCollisionP2 = 0, lastGoalTime = 0, groundTopY = 648,
     player1 = testPlayer1, player2 = testPlayer2, ball = testBall,
     leftGoal = \<lparr>g_x = 80, g_y = 648\<rparr>, rightGoal = \<lparr>g_x = 1072, g_y = 648\<rparr>\<rparr>"

definition testJumper :: Player where
  "testJumper = \<lparr>playerSide = left, playerState = jumping, isStunned = False, stunTimer = 0,
     slideTimer = 0, kickTimer = 0, facingRight = True, isOnGround = False, kickCooldown = 0,
     jumpFallTimer = Some 1300, jumpLandTimer = Some 1600, p_x = 376, p_y = 600,
     p_body = Some \<lparr>velocity = (0, - 500), angularVelocity = 0\<rparr>\<rparr>"

section \<open>Vector lemmas\<close>

lemma vlength_nonneg: "0 \<le> vlength v"
  by (simp add: vlength_def)

lemma vlength_vscale: "vlength (vscale k v) = \<bar>k\<bar> * vlength v"
proof -
  have "fst v * k * (fst v * k) + snd v * k * (snd v * k)
        = (k * k) * (fst v * fst v + snd v * snd v)"
    by (simp add: algebra_simps)
  then show ?thesis
    by (simp add: vlength_def vscale_def real_sqrt_mult)
qed

lemma vlength_vnormalize:
  assumes "0 < vlength v"
  shows "vlength (vnormalize v) = 1"
proof -
  define L where "L = fst v * fst v + snd v * snd v"
  define s where "s = sqrt L"
  have Lpos: "0 < L"
    using assms by (simp add: vlength_def L_def)
  have spos: "0 < s"
    using Lpos by (simp add: s_def)
  have sq: "s * s = L"
    using Lpos by (simp add: s_def)
  have "fst v * (1 / s) * (fst v * (1 / s)) + snd v * (1 / s) * (snd v * (1 / s))
        = (fst v * fst v + snd v * snd v) / (s * s)"
    using spos by (simp add: field_simps)
  also have "\<dots> = L / L"
    by (simp only: sq L_def)
  also have "\<dots> = 1"
    using Lpos by simp
  finally have "sqrt (fst v * (1 / s) * (fst v * (1 / s)) + snd v * (1 / s) * (snd v * (1 / s))) = 1"
    by simp
  moreover have "vnormalize v = (fst v * (1 / s), snd v * (1 / s))"
    using Lpos by (simp add: vnormalize_def Let_def L_def s_def)
  ultimately show ?thesis
    by (simp add: vlength_def)
qed

lemma vlength_axis: "vlength (a, 0) = \<bar>a\<bar>"
  by (simp add: vlength_def)

section \<open>Ball.kick\<close>

text \<open>
  In exact arithmetic, and for a non-negative \<open>maxSpeed\<close>, the limited vector is never
  longer than \<open>1.2 * maxSpeed\<close>, and is exactly that long where the limit cuts. This is a
  fact about real numbers. Whether the doubles the source computes stay within the
  bound depends on how the square root, the division and the products round, which this
  model does not represent; the bound on the velocity the code sets is therefore not
  stated as a theorem about the code.
\<close>
lemma kick_limit_bound:
  assumes "0 \<le> maxSpeed cfg"
  shows "vlength (kick_limit cfg v) \<le> maxSpeed cfg * 1.2"
proof (cases "vlength v > maxSpeed cfg * 1.2")
  case True
  then have "0 < vlength v" using assms by linarith
  then have "vlength (vnormalize v) = 1" by (rule vlength_vnormalize)
  then have "vlength (vscale (maxSpeed cfg * 1.2) (vnormalize v)) = maxSpeed cfg * 1.2"
    using assms by (simp add: vlength_vscale)
  then show ?thesis using True by (simp add: kick_limit_def Let_def)
next
  case False
  then show ?thesis by (simp add: kick_limit_def Let_def)
qed

lemma kick_limit_clamped:
  assumes "0 \<le> maxSpeed cfg" "vlength v > maxSpeed cfg * 1.2"
  shows "vlength (kick_limit cfg v) = maxSpeed cfg * 1.2"
proof -
  have "0 < vlength v" using assms by linarith
  then have "vlength (vnormalize v) = 1" by (rule vlength_vnormalize)
  then have "vlength (vscale (maxSpeed cfg * 1.2) (vnormalize v)) = maxSpeed cfg * 1.2"
    using assms by (simp add: vlength_vscale)
  then show ?thesis using assms by (simp add: kick_limit_def Let_def)
qed

lemma kick_limit_unclamped:
  "vlength v \<le> maxSpeed cfg * 1.2 \<Longrightarrow> kick_limit cfg v = v"
  by (simp add: kick_limit_def Let_def)

lemma kick_body:
  assumes "b_body b = Some body"
  shows "b_body (kick cfg f h kt d b) =
           Some (body\<lparr>velocity := kick_limit cfg (kick_finalForce kt f d),
                     angularVelocity := (if fst f > 0 then vlength (kick_finalForce kt f d) * 0.02
                                         else - (vlength (kick_finalForce kt f d) * 0.02))\<rparr>)"
  using assms by (simp add: kick_def Let_def)

text \<open>
  Claim C3, the code at an input where it departs from the claim. For a \<open>normal\<close> kick
  the source scales the impulse by \<open>0.8 + min(distance / 150, 2.0) * 0.4\<close>. At distance
  150 the factor is 1.2, but it keeps growing up to 1.6 at distance 300: the impulse
  \<open>(100, -100)\<close> leaves the \<open>switch\<close> as \<open>(160, -450)\<close>, whose horizontal part exceeds
  1.2 times the original, and with \<open>maxSpeed = 600\<close> that is the velocity the ball gets. The
  vertical part is \<open>- max(200, 1.5 * distance)\<close> as claimed.
\<close>
theorem kick_normal_multiplier_at_300:
  "kick_finalForce normal (100, - 100) 150 = (120, - 225)
   \<and> kick_finalForce normal (100, - 100) 300 = (160, - 450)
   \<and> fst (kick_finalForce normal (100, - 100) 300) > 1.2 * 100
   \<and> map_option velocity (b_body (kick testConfig (100, - 100) 648 normal 300 testBall))
       = Some (160, - 450)"
proof -
  have ff: "kick_finalForce normal (100, - 100) 150 = (120, - 225)"
    "kick_finalForce normal (100, - 100) 300 = (160, - 450)"
    by (simp_all add: kick_finalForce_def vscale_def Let_def)
  have "sqrt 228100 \<le> 720"
    by (rule real_le_lsqrt) simp_all
  then have "vlength (160, - 450) \<le> maxSpeed testConfig * 1.2"
    by (simp add: vlength_def testConfig_def)
  then have lim: "kick_limit testConfig (160, - 450) = (160, - 450)"
    by (rule kick_limit_unclamped)
  have bd: "b_body testBall = Some \<lparr>velocity = (0, 0), angularVelocity = 0\<rparr>"
    by (simp add: testBall_def)
  show ?thesis
    by (simp add: ff kick_body [OF bd] lim)
qed

text \<open>
  What the \<open>normal\<close> branch does for every distance \<open>d \<ge> 0\<close>: the factor lies in
  \<open>[0.8, 1.6]\<close> and is constant only from \<open>d = 300\<close> on.
\<close>
lemma kick_normal_general:
  assumes "0 \<le> d"
  shows "kick_finalForce normal (x, y) d = ((0.8 + min (d / 150) 2 * 0.4) * x, - max 200 (1.5 * d))"
    and "0.8 \<le> 0.8 + min (d / 150) 2 * 0.4" and "0.8 + min (d / 150) 2 * 0.4 \<le> 1.6"
    and "300 \<le> d \<Longrightarrow> 0.8 + min (d / 150) 2 * 0.4 = 1.6"
  using assms by (simp_all add: kick_finalForce_def vscale_def Let_def mult.commute min_def)

text \<open>
  Claim C5: for a \<open>jump\<close> kick with impulse \<open>(x, y)\<close> the force before the speed limit is
  exactly \<open>(0.8 * x, -2 * |y|)\<close>. Its vertical part is never positive, has magnitude
  \<open>2 * |y|\<close>, and is negative whenever \<open>y \<noteq> 0\<close>; this is the vector the speed limit is
  then applied to when the ball is kicked.
\<close>
theorem kick_jump_finalForce:
  "kick_finalForce jump (x, y) d = (0.8 * x, - 2.0 * \<bar>y\<bar>)
   \<and> snd (kick_finalForce jump (x, y) d) \<le> 0
   \<and> \<bar>snd (kick_finalForce jump (x, y) d)\<bar> = 2.0 * \<bar>y\<bar>
   \<and> (y \<noteq> 0 \<longrightarrow> snd (kick_finalForce jump (x, y) d) < 0)
   \<and> (b_body b = Some body \<longrightarrow>
         map_option velocity (b_body (kick cfg (x, y) h jump d b))
           = Some (kick_limit cfg (0.8 * x, - 2.0 * \<bar>y\<bar>)))"
proof -
  have ff: "kick_finalForce jump (x, y) d = (0.8 * x, - 2.0 * \<bar>y\<bar>)"
    by (simp add: kick_finalForce_def)
  have k: "b_body b = Some body \<Longrightarrow>
           map_option velocity (b_body (kick cfg (x, y) h jump d b))
             = Some (kick_limit cfg (kick_finalForce jump (x, y) d))"
    by (simp add: kick_body)
  show ?thesis
    using k by (simp add: ff)
qed

theorem kick_jump_finalForce_witness:
  "kick_finalForce jump (360, - 150) 120 = (288, - 300)
   \<and> (- 150 :: real) \<noteq> 0 \<and> snd (kick_finalForce jump (360, - 150) 120) < 0
   \<and> b_body testBall = Some \<lparr>velocity = (0, 0), angularVelocity = 0\<rparr>
   \<and> map_option velocity (b_body (kick testConfig (360, - 150) 648 jump 120 testBall))
         = Some (kick_limit testConfig (288, - 300))"
  using kick_jump_finalForce [of 360 "- 150" 120 testBall "\<lparr>velocity = (0, 0), angularVelocity = 0\<rparr>" testConfig 648]
  by (simp add: testBall_def)

lemma kick_finalForce_sign:
  assumes "0 \<le> d"
  shows "(0 < fst (kick_finalForce kt f d)) = (0 < fst f)"
    and "(fst (kick_finalForce kt f d) < 0) = (fst f < 0)"
proof -
  have pos: "0 < 0.8 + min (d / 150) 2 * (0.4 :: real)"
    using assms by (simp add: min_def)
  have n: "fst (kick_finalForce normal f d) = fst f * (0.8 + min (d / 150) 2 * 0.4)"
    by (simp add: kick_finalForce_def vscale_def Let_def)
  show "(0 < fst (kick_finalForce kt f d)) = (0 < fst f)"
  proof (cases kt)
    case normal
    then show ?thesis using pos by (simp only: n zero_less_mult_iff) auto
  qed (simp_all add: kick_finalForce_def vscale_def Let_def)
  show "(fst (kick_finalForce kt f d) < 0) = (fst f < 0)"
  proof (cases kt)
    case normal
    then show ?thesis using pos by (simp only: n mult_less_0_iff) auto
  qed (simp_all add: kick_finalForce_def vscale_def Let_def)
qed

lemma kick_limit_factor:
  assumes "0 \<le> maxSpeed cfg"
  shows "\<exists>k\<ge>0. fst (kick_limit cfg v) = fst v * k"
proof (cases "vlength v > maxSpeed cfg * 1.2")
  case False
  then have "fst (kick_limit cfg v) = fst v * 1"
    by (simp add: kick_limit_def Let_def)
  then show ?thesis
    by (intro exI [of _ 1]) simp
next
  case True
  show ?thesis
  proof (cases "0 < fst v * fst v + snd v * snd v")
    case pos: True
    let ?k = "1 / sqrt (fst v * fst v + snd v * snd v) * (maxSpeed cfg * 1.2)"
    have "0 \<le> ?k" using assms by simp
    moreover have "fst (kick_limit cfg v) = fst v * ?k"
      using True pos by (simp add: kick_limit_def vnormalize_def vscale_def Let_def)
    ultimately show ?thesis by blast
  next
    case npos: False
    let ?k = "maxSpeed cfg * 1.2"
    have "0 \<le> ?k" using assms by simp
    moreover have "fst (kick_limit cfg v) = fst v * ?k"
      using True npos by (simp add: kick_limit_def vnormalize_def vscale_def Let_def)
    ultimately show ?thesis by blast
  qed
qed

lemma kick_limit_sign:
  assumes "0 \<le> maxSpeed cfg"
  shows "0 < fst (kick_limit cfg v) \<Longrightarrow> 0 < fst v"
    and "fst (kick_limit cfg v) < 0 \<Longrightarrow> fst v < 0"
proof -
  obtain k where k0: "0 \<le> k" and c: "fst (kick_limit cfg v) = fst v * k"
    using kick_limit_factor [OF assms] by blast
  show "0 < fst (kick_limit cfg v) \<Longrightarrow> 0 < fst v"
    using c k0 by (auto simp add: zero_less_mult_iff)
  show "fst (kick_limit cfg v) < 0 \<Longrightarrow> fst v < 0"
    using c k0 by (auto simp add: mult_less_0_iff)
qed

text \<open>
  Claim C6 as stated fails: the spin is \<open>0.02\<close> times the magnitude computed before the
  speed limit. With \<open>maxSpeed = 600\<close> a slide kick of impulse \<open>(600, 0)\<close> is limited to
  speed 720, yet the spin set is \<open>0.02 * 900 = 18\<close>, not \<open>0.02 * 720\<close>.
\<close>
theorem kick_spin_counterexample:
  "map_option angularVelocity (b_body (kick testConfig (600, 0) 648 slide 100 testBall)) = Some 18
   \<and> map_option (vlength \<circ> velocity) (b_body (kick testConfig (600, 0) 648 slide 100 testBall)) = Some 720
   \<and> (18 :: real) \<noteq> 0.02 * 720"
proof -
  have ff: "kick_finalForce slide (600, 0) 100 = (900, 0)"
    by (simp add: kick_finalForce_def vscale_def Let_def)
  have len: "vlength (900, 0) = 900"
    by (simp add: vlength_axis)
  have lim: "vlength (kick_limit testConfig (900, 0)) = 720"
    using kick_limit_clamped [of testConfig "(900, 0)"] len by (simp add: testConfig_def)
  have bd: "b_body testBall = Some \<lparr>velocity = (0, 0), angularVelocity = 0\<rparr>"
    by (simp add: testBall_def)
  show ?thesis
    by (simp add: kick_body [OF bd] ff len lim)
qed

text \<open>
  Claim C6, amended: the spin set by a kick is \<open>0.02\<close> times the magnitude of the force
  before the speed limit, positive when the impulse's x component is positive and
  negative otherwise. It equals \<open>0.02\<close> times the applied speed whenever the limit does
  not cut the force, and it is positive when the applied velocity points right and
  negative when it points left.
\<close>
theorem kick_spin_preclamp:
  assumes "b_body b = Some body" and "0 \<le> maxSpeed cfg" and "0 \<le> d"
  shows "\<exists>body'. b_body (kick cfg f h kt d b) = Some body'
           \<and> angularVelocity body' = (if fst f > 0 then 0.02 * vlength (kick_finalForce kt f d)
                                       else - (0.02 * vlength (kick_finalForce kt f d)))
           \<and> (vlength (kick_finalForce kt f d) \<le> maxSpeed cfg * 1.2 \<longrightarrow>
                 \<bar>angularVelocity body'\<bar> = 0.02 * vlength (velocity body'))
           \<and> (0 < fst (velocity body') \<longrightarrow>
                 angularVelocity body' = 0.02 * vlength (kick_finalForce kt f d))
           \<and> (fst (velocity body') < 0 \<longrightarrow>
                 angularVelocity body' = - (0.02 * vlength (kick_finalForce kt f d)))"
proof -
  let ?v = "kick_finalForce kt f d"
  have r: "0 < fst (kick_limit cfg ?v) \<Longrightarrow> 0 < fst f"
    using kick_limit_sign(1) [OF assms(2)] kick_finalForce_sign(1) [OF assms(3)] by blast
  have l: "fst (kick_limit cfg ?v) < 0 \<Longrightarrow> \<not> 0 < fst f"
    using kick_limit_sign(2) [OF assms(2), of ?v] kick_finalForce_sign(2) [OF assms(3), of kt f] by simp
  have u: "vlength ?v \<le> maxSpeed cfg * 1.2 \<Longrightarrow> vlength (kick_limit cfg ?v) = vlength ?v"
    by (simp add: kick_limit_unclamped)
  have n: "0 \<le> vlength ?v" by (rule vlength_nonneg)
  show ?thesis
    using r l u n by (simp add: kick_body [OF assms(1)])
qed

theorem kick_spin_preclamp_witness:
  "map_option angularVelocity (b_body (kick testConfig (100, 0) 648 slide 100 testBall)) = Some 3
   \<and> map_option velocity (b_body (kick testConfig (100, 0) 648 slide 100 testBall)) = Some (150, 0)
   \<and> map_option angularVelocity (b_body (kick testConfig (- 100, 0) 648 slide 100 testBall)) = Some (- 3)
   \<and> map_option velocity (b_body (kick testConfig (- 100, 0) 648 slide 100 testBall)) = Some (- 150, 0)"
proof -
  have bd: "b_body testBall = Some \<lparr>velocity = (0, 0), angularVelocity = 0\<rparr>"
    by (simp add: testBall_def)
  have ms: "0 \<le> maxSpeed testConfig" by (simp add: testConfig_def)
  have d: "(0::real) \<le> 100" by simp
  have f1: "kick_finalForce slide (100, 0) 100 = (150, 0)"
    and f2: "kick_finalForce slide (- 100, 0) 100 = (- 150, 0)"
    by (simp_all add: kick_finalForce_def vscale_def Let_def)
  have l1: "kick_limit testConfig (150, 0) = (150, 0)"
    and l2: "kick_limit testConfig (- 150, 0) = (- 150, 0)"
    by (simp_all add: kick_limit_unclamped vlength_axis testConfig_def)
  have v1: "map_option velocity (b_body (kick testConfig (100, 0) 648 slide 100 testBall)) = Some (150, 0)"
    and v2: "map_option velocity (b_body (kick testConfig (- 100, 0) 648 slide 100 testBall)) = Some (- 150, 0)"
    by (simp_all add: kick_body [OF bd] f1 f2 l1 l2)
  from kick_spin_preclamp [OF bd ms d, of "(100, 0)" 648 slide] v1
  have a1: "map_option angularVelocity (b_body (kick testConfig (100, 0) 648 slide 100 testBall)) = Some 3"
    by (auto simp add: f1 vlength_axis)
  from kick_spin_preclamp [OF bd ms d, of "(- 100, 0)" 648 slide] v2
  have a2: "map_option angularVelocity (b_body (kick testConfig (- 100, 0) 648 slide 100 testBall)) = Some (- 3)"
    by (auto simp add: f2 vlength_axis)
  show ?thesis using a1 v1 a2 v2 by blast
qed

section \<open>Player: kick input during a jump\<close>

lemma updateStunTimer_keeps:
  "playerState p \<noteq> stunned \<Longrightarrow>
     playerState (updateStunTimer dt p) = playerState p
     \<and> p_body (updateStunTimer dt p) = p_body p
     \<and> jumpFallTimer (updateStunTimer dt p) = jumpFallTimer p
     \<and> jumpLandTimer (updateStunTimer dt p) = jumpLandTimer p"
  by (simp add: updateStunTimer_def Let_def)

lemma updateSlideTimer_keeps:
  "playerState p \<noteq> sliding \<Longrightarrow>
     playerState (updateSlideTimer dt p) = playerState p
     \<and> p_body (updateSlideTimer dt p) = p_body p
     \<and> jumpFallTimer (updateSlideTimer dt p) = jumpFallTimer p
     \<and> jumpLandTimer (updateSlideTimer dt p) = jumpLandTimer p"
  by (simp add: updateSlideTimer_def Let_def)

lemma updateKickTimer_keeps:
  "playerState p \<noteq> kicking \<Longrightarrow>
     updateKickTimer now dt p
       = Inr (if kickTimer p > 0 then p\<lparr>kickTimer := kickTimer p - dt\<rparr> else p)"
  by (simp add: updateKickTimer_def Let_def)

lemma updateKickCooldown_keeps:
  "playerState (updateKickCooldown dt p) = playerState p
   \<and> p_body (updateKickCooldown dt p) = p_body p
   \<and> jumpFallTimer (updateKickCooldown dt p) = jumpFallTimer p
   \<and> jumpLandTimer (updateKickCooldown dt p) = jumpLandTimer p"
  by (simp add: updateKickCooldown_def)

lemma updateTimers_jumping:
  assumes "playerState p = jumping" and "updateTimers now dt p = Inr p'"
  shows "playerState p' = jumping \<and> p_body p' = p_body p
         \<and> jumpFallTimer p' = jumpFallTimer p \<and> jumpLandTimer p' = jumpLandTimer p"
proof -
  let ?a = "updateStunTimer dt p"
  let ?b = "updateSlideTimer dt ?a"
  have a: "playerState ?a = jumping \<and> p_body ?a = p_body p
           \<and> jumpFallTimer ?a = jumpFallTimer p \<and> jumpLandTimer ?a = jumpLandTimer p"
    using updateStunTimer_keeps [of p dt] assms(1) by simp
  have b: "playerState ?b = jumping \<and> p_body ?b = p_body p
           \<and> jumpFallTimer ?b = jumpFallTimer p \<and> jumpLandTimer ?b = jumpLandTimer p"
    using updateSlideTimer_keeps [of ?a dt] a by simp
  have c: "updateKickTimer now dt ?b
             = Inr (if kickTimer ?b > 0 then ?b\<lparr>kickTimer := kickTimer ?b - dt\<rparr> else ?b)"
    using updateKickTimer_keeps [of ?b now dt] b by simp
  have "p' = updateKickCooldown dt (if kickTimer ?b > 0 then ?b\<lparr>kickTimer := kickTimer ?b - dt\<rparr> else ?b)"
    using assms(2) by (simp only: updateTimers_def c sum.case) simp
  then show ?thesis
    using b by (simp add: updateKickCooldown_keeps)
qed

lemma updateGroundStatus_state:
  "playerState (updateGroundStatus p) = playerState p
   \<and> jumpFallTimer (updateGroundStatus p) = jumpFallTimer p
   \<and> jumpLandTimer (updateGroundStatus p) = jumpLandTimer p"
  by (cases "p_body p") (simp_all add: updateGroundStatus_def Let_def)

text \<open>
  A player whose state is \<open>jumping\<close> when \<open>update\<close> is called is still \<open>jumping\<close> when
  it returns, and the kick key makes no difference: \<open>update\<close> hands the tick to
  \<open>handleJumpingState\<close> and returns before \<open>handleInput\<close>.
\<close>
lemma update_keeps_jumping:
  assumes "playerState p = jumping"
    and "update cfg now dt leftKey rightKey upKey downKey kickKey p = Inr p'"
  shows "playerState p' = jumping"
proof -
  from assms(2) obtain p1 where t: "updateTimers now dt p = Inr p1"
    by (auto simp add: update_def split: sum.splits)
  have s1: "playerState p1 = jumping"
    using updateTimers_jumping [OF assms(1) t] by simp
  have s2: "playerState (updateGroundStatus p1) = jumping"
    using s1 by (simp add: updateGroundStatus_state)
  show ?thesis
    using assms(2) t s2
    by (auto simp add: update_def Let_def handleStunnedState_def handleJumpingState_def
        split: if_splits option.splits)
qed

lemma update_ignores_kickKey_while_jumping:
  assumes "playerState p = jumping"
  shows "update cfg now dt leftKey rightKey upKey downKey True p
         = update cfg now dt leftKey rightKey upKey downKey False p"
proof (cases "updateTimers now dt p")
  case (Inl e)
  then show ?thesis by (simp add: update_def)
next
  case (Inr p1)
  have "playerState (updateGroundStatus p1) = jumping"
    using updateTimers_jumping [OF assms Inr] by (simp add: updateGroundStatus_state)
  then show ?thesis
    using Inr by (simp add: update_def Let_def)
qed

text \<open>
  \<open>handleInput\<close> itself does what its comments say. Called on a jumping player it starts
  the kick and leaves both jump timers alone; through \<open>update\<close> this is reached only in
  the tick that starts the jump, when the jump and kick keys are pressed together. When
  the kick timer runs out the state is \<open>jumping\<close> if the player is off the ground and
  \<open>idle\<close> otherwise.
\<close>
lemma inputMove_keeps:
  "playerState (inputMove cfg l r body p) = playerState p
   \<and> kickCooldown (inputMove cfg l r body p) = kickCooldown p
   \<and> isOnGround (inputMove cfg l r body p) = isOnGround p
   \<and> jumpFallTimer (inputMove cfg l r body p) = jumpFallTimer p
   \<and> jumpLandTimer (inputMove cfg l r body p) = jumpLandTimer p"
  by (simp add: inputMove_def Let_def)

lemma handleInput_air_kick:
  assumes "playerState p = jumping" and "kickCooldown p \<le> 0" and "\<not> isStunned p"
    and "p_body p = Some body"
  shows "playerState (handleInput cfg now leftKey rightKey upKey downKey True p) = kicking
       \<and> kickTimer (handleInput cfg now leftKey rightKey upKey downKey True p) = kickDuration cfg * 1000
       \<and> jumpFallTimer (handleInput cfg now leftKey rightKey upKey downKey True p) = jumpFallTimer p
       \<and> jumpLandTimer (handleInput cfg now leftKey rightKey upKey downKey True p) = jumpLandTimer p"
proof -
  let ?m = "inputMove cfg leftKey rightKey body p"
  have m: "playerState ?m = jumping" "kickCooldown ?m \<le> 0"
    "jumpFallTimer ?m = jumpFallTimer p" "jumpLandTimer ?m = jumpLandTimer p"
    using assms(1,2) by (simp_all add: inputMove_keeps)
  have j: "inputJump cfg now upKey (?m, False) = (?m, False)"
    using m(1) by (simp add: inputJump_def Let_def)
  have sl: "inputSlide cfg downKey (?m, False) = (?m, False)"
    using m(1) by (simp add: inputSlide_def Let_def)
  have k: "inputKick cfg True (?m, False) = (startKick cfg ?m, True)"
    using m(1,2) by (simp add: inputKick_def Let_def)
  have a: "inputAirKick cfg True (startKick cfg ?m) = startKick cfg ?m"
    by (simp add: inputAirKick_def startKick_def)
  have "handleInput cfg now leftKey rightKey upKey downKey True p = startKick cfg ?m"
    using assms(1,3,4) by (simp add: handleInput_def j sl k a)
  then show ?thesis
    using m(3,4) by (simp add: startKick_def)
qed

lemma handleInput_jump_and_kick:
  assumes "playerState p = idle" and "isOnGround p" and "kickCooldown p \<le> 0" and "\<not> isStunned p"
    and "p_body p = Some body"
  shows "playerState (handleInput cfg now leftKey rightKey True downKey True p) = kicking
       \<and> jumpFallTimer (handleInput cfg now leftKey rightKey True downKey True p) = Some (now + 300)
       \<and> jumpLandTimer (handleInput cfg now leftKey rightKey True downKey True p) = Some (now + 600)"
proof -
  let ?m = "inputMove cfg leftKey rightKey body p"
  let ?j = "(clearJumpTimers
                  (?m\<lparr>playerState := jumping,
                      p_body := map_option (setVelocityY (- jumpPower cfg)) (p_body ?m)\<rparr>))
               \<lparr>jumpFallTimer := Some (now + 300), jumpLandTimer := Some (now + 600)\<rparr>"
  have m: "playerState ?m = idle" "kickCooldown ?m \<le> 0" "isOnGround ?m"
    using assms(1,2,3) by (simp_all add: inputMove_keeps)
  have j: "inputJump cfg now True (?m, False) = (?j, True)"
    using m(1,3) by (simp add: inputJump_def Let_def)
  have sl: "inputSlide cfg downKey (?j, True) = (?j, True)"
    by (simp add: inputSlide_def Let_def)
  have k: "inputKick cfg True (?j, True) = (?j, True)"
    by (simp add: inputKick_def Let_def)
  have jc: "kickCooldown ?j \<le> 0" "playerState ?j = jumping"
    using m(2) by (simp_all add: clearJumpTimers_def)
  have "handleInput cfg now leftKey rightKey True downKey True p = inputAirKick cfg True ?j"
    using assms(1,4,5) by (simp add: handleInput_def j sl k)
  also have "\<dots> = ?j\<lparr>playerState := kicking, kickTimer := kickDuration cfg * 1000, kickCooldown := 500\<rparr>"
    using jc by (simp add: inputAirKick_def)
  finally show ?thesis
    by simp
qed

lemma kick_timer_expiry:
  assumes "playerState p = kicking" and "0 < kickTimer p" and "kickTimer p \<le> dt"
    and "updateKickTimer now dt p = Inr p'"
  shows "playerState p' = (if isOnGround p then idle else jumping)"
proof -
  have "kickTimer p - dt \<le> 0" using assms(3) by simp
  then show ?thesis
    using assms(1,2,4)
    by (cases "isOnGround p") (auto simp add: updateKickTimer_def Let_def split: if_splits option.splits)
qed

text \<open>
  Claim C7, the code at an input where it departs from the claim: a player in mid-jump
  (state \<open>jumping\<close>, kick cooldown 0) is updated for one 16 ms tick with only the kick key
  down. The state stays \<open>jumping\<close> and no kick timer is started, although
  \<open>handleInput\<close> on the same player and keys would switch to \<open>kicking\<close>.
\<close>
theorem update_jumping_kick_input:
  "map_sum id playerState (update testConfig 1016 16 False False False False True testJumper)
     = Inr jumping
   \<and> map_sum id kickTimer (update testConfig 1016 16 False False False False True testJumper)
     = Inr 0
   \<and> playerState (handleInput testConfig 1016 False False False False True testJumper) = kicking"
  by (simp add: update_def updateTimers_def updateKickTimer_def updateSlideTimer_def
      updateStunTimer_def updateKickCooldown_def updateGroundStatus_def handleJumpingState_def
      handleInput_def inputMove_def inputJump_def inputSlide_def inputKick_def inputAirKick_def
      startKick_def setVelocityX_def setVelocityY_def
      testJumper_def testConfig_def Let_def)

section \<open>AI decision\<close>

lemma isMoving_iff: "isMoving b \<longleftrightarrow> vlength (getVelocity b) > 20"
  by (cases "b_body b") (simp_all add: isMoving_def getVelocity_def vlength_def)

lemma distance_50: "DistanceBetween 776 648 746 608 = 50"
proof -
  have "sqrt 2500 = 50"
    by (rule real_sqrt_unique) simp_all
  then show ?thesis
    by (simp add: DistanceBetween_def Let_def)
qed

text \<open>
  Claim C9: when the AI player is less than 80 from the ball and the ball's speed is at
  most the moving threshold 20, \<open>makeDecision\<close> selects \<open>attack\<close>, whatever the later
  rules (chase, defend, idle) would say. The witness is the scenario of the
  specification: distance 50, ball velocity \<open>(0, 0)\<close>.
\<close>
theorem makeDecision_attack_first:
  assumes "DistanceBetween (p_x p) (p_y p) (b_x b) (b_y b) < 80"
    and "vlength (getVelocity b) \<le> 20"
  shows "\<not> isMoving b
       \<and> currentAction (makeDecision cameraWidth random p b ai) = action_attack
       \<and> actionTimer (makeDecision cameraWidth random p b ai) = 1000 + random * 500"
  using assms by (simp add: makeDecision_def Let_def isMoving_iff)

theorem makeDecision_attack_first_witness:
  "DistanceBetween (p_x testPlayer2) (p_y testPlayer2) (b_x (testBall\<lparr>b_x := 746, b_y := 608\<rparr>))
      (b_y (testBall\<lparr>b_x := 746, b_y := 608\<rparr>)) = 50
   \<and> getVelocity (testBall\<lparr>b_x := 746, b_y := 608\<rparr>) = (0, 0)
   \<and> currentAction (makeDecision 1152 (1 / 2) testPlayer2 (testBall\<lparr>b_x := 746, b_y := 608\<rparr>)
        \<lparr>currentAction = action_idle, actionTimer = 0, ai_jumpTimer = 0, ai_kickTimer = 0,
         lastDecisionTime = 0\<rparr>) = action_attack"
proof -
  let ?b = "testBall\<lparr>b_x := 746, b_y := 608\<rparr>"
  have d: "DistanceBetween (p_x testPlayer2) (p_y testPlayer2) (b_x ?b) (b_y ?b) = 50"
    using distance_50 by (simp add: testPlayer2_def)
  have v: "getVelocity ?b = (0, 0)"
    by (simp add: getVelocity_def testBall_def)
  have h1: "DistanceBetween (p_x testPlayer2) (p_y testPlayer2) (b_x ?b) (b_y ?b) < 80"
    using d by simp
  have h2: "vlength (getVelocity ?b) \<le> 20"
    using v by (simp add: vlength_axis)
  show ?thesis
    using d v makeDecision_attack_first [OF h1 h2] by simp
qed

section \<open>Player and ball contact\<close>

lemma getPlayer_setPlayer: "getPlayer who (setPlayer who p s) = p"
  by (cases who) (simp_all add: getPlayer_def setPlayer_def)

lemma ball_setPlayer: "ball (setPlayer who p s) = ball s"
  by (cases who) (simp_all add: setPlayer_def)

lemma getPlayer_ball_update: "getPlayer who (s\<lparr>ball := b\<rparr>) = getPlayer who s"
  by (cases who) (simp_all add: getPlayer_def)

lemma isProperKick_iff:
  "isProperKick p b \<longleftrightarrow>
     (facingRight p \<and> b_x b - p_x p > 0) \<or> (\<not> facingRight p \<and> b_x b - p_x p < 0)"
  by (simp add: isProperKick_def getFacingDirection_def Let_def)

lemma contact_bounce:
  assumes "isGameActive s" "\<not> uiPaused s" "b_body (ball s) = Some ballBody"
    and "\<not> isProperKick (getPlayer who s) (ball s)"
  shows "handlePlayerBallContact cfg who s =
           Inr (s\<lparr>ball := (ball s)\<lparr>b_body := Some (ballBody\<lparr>velocity :=
                  (if b_x (ball s) - p_x (getPlayer who s) > 0 then 200 else - 200, - 100)\<rparr>)\<rparr>\<rparr>)"
  using assms by (simp add: handlePlayerBallContact_def Let_def)

lemma contact_kick:
  assumes "isGameActive s" "\<not> uiPaused s" "b_body (ball s) = Some ballBody"
    and "isProperKick (getPlayer who s) (ball s)"
  shows "handlePlayerBallContact cfg who s =
           (let player = getPlayer who s;
                s1 = s\<lparr>ball := kick cfg (force (getKickInfo cfg player)) (p_y player)
                                  (type (getKickInfo cfg player))
                                  (DistanceBetween (p_x player) (p_y player) (b_x (ball s)) (b_y (ball s)))
                                  (ball s)\<rparr>
            in if playerState player \<noteq> sliding \<and> playerState player \<noteq> kicking
               then Inr (setPlayer who (triggerKick cfg player) s1)
               else Inr s1)"
  using assms by (simp add: handlePlayerBallContact_def Let_def isSliding_def isKicking_def)

text \<open>
  Claim C1: for a contact handled while the match is active and not paused (the ball
  having a body), the contact is a proper kick exactly when the player faces right with
  the ball strictly to the right, or faces left with the ball strictly to the left. A
  proper kick hands the ball to \<open>Ball.kick\<close>. Every other contact sets the ball's velocity
  to \<open>(200, -100)\<close> when the ball is to the player's right and to \<open>(-200, -100)\<close>
  otherwise, and changes neither player.
\<close>
theorem contact_kick_iff_facing:
  assumes "isGameActive s" and "\<not> uiPaused s" and "b_body (ball s) = Some ballBody"
  shows "(isProperKick (getPlayer who s) (ball s) \<longleftrightarrow>
            (getFacingDirection (getPlayer who s) = right \<and> b_x (ball s) > p_x (getPlayer who s))
          \<or> (getFacingDirection (getPlayer who s) = left \<and> b_x (ball s) < p_x (getPlayer who s)))
       \<and> (isProperKick (getPlayer who s) (ball s) \<longrightarrow>
            (\<exists>s'. handlePlayerBallContact cfg who s = Inr s'
                 \<and> ball s' = kick cfg (force (getKickInfo cfg (getPlayer who s))) (p_y (getPlayer who s))
                               (type (getKickInfo cfg (getPlayer who s)))
                               (DistanceBetween (p_x (getPlayer who s)) (p_y (getPlayer who s))
                                  (b_x (ball s)) (b_y (ball s)))
                               (ball s)))
       \<and> (\<not> isProperKick (getPlayer who s) (ball s) \<longrightarrow>
            (\<exists>s'. handlePlayerBallContact cfg who s = Inr s'
                 \<and> map_option velocity (b_body (ball s'))
                     = Some (if b_x (ball s) > p_x (getPlayer who s) then (200, - 100) else (- 200, - 100))
                 \<and> player1 s' = player1 s \<and> player2 s' = player2 s))"
proof -
  have a: "isProperKick (getPlayer who s) (ball s) \<longleftrightarrow>
            (getFacingDirection (getPlayer who s) = right \<and> b_x (ball s) > p_x (getPlayer who s))
          \<or> (getFacingDirection (getPlayer who s) = left \<and> b_x (ball s) < p_x (getPlayer who s))"
    by (simp add: isProperKick_def getFacingDirection_def Let_def)
  have b: "isProperKick (getPlayer who s) (ball s) \<Longrightarrow>
            (\<exists>s'. handlePlayerBallContact cfg who s = Inr s'
                 \<and> ball s' = kick cfg (force (getKickInfo cfg (getPlayer who s))) (p_y (getPlayer who s))
                               (type (getKickInfo cfg (getPlayer who s)))
                               (DistanceBetween (p_x (getPlayer who s)) (p_y (getPlayer who s))
                                  (b_x (ball s)) (b_y (ball s)))
                               (ball s))"
    by (simp add: contact_kick [OF assms] Let_def ball_setPlayer)
  have c: "\<not> isProperKick (getPlayer who s) (ball s) \<Longrightarrow>
            (\<exists>s'. handlePlayerBallContact cfg who s = Inr s'
                 \<and> map_option velocity (b_body (ball s'))
                     = Some (if b_x (ball s) > p_x (getPlayer who s) then (200, - 100) else (- 200, - 100))
                 \<and> player1 s' = player1 s \<and> player2 s' = player2 s)"
    by (simp add: contact_bounce [OF assms])
  from a b c show ?thesis by blast
qed

theorem contact_kick_iff_facing_witness:
  "isGameActive testScene \<and> \<not> uiPaused testScene
   \<and> b_body (ball testScene) = Some \<lparr>velocity = (0, 0), angularVelocity = 0\<rparr>
   \<and> isProperKick (getPlayer P1 testScene) (ball testScene)
   \<and> map_sum id ball (handlePlayerBallContact testConfig P1 testScene)
       = Inr (kick testConfig (400, - 100) 648 normal
                (DistanceBetween 376 648 576 622) testBall)
   \<and> \<not> isProperKick (getPlayer P1 (testScene\<lparr>ball := testBall\<lparr>b_x := 300\<rparr>\<rparr>))
                        (ball (testScene\<lparr>ball := testBall\<lparr>b_x := 300\<rparr>\<rparr>))
   \<and> map_sum id (map_option velocity \<circ> b_body \<circ> ball)
        (handlePlayerBallContact testConfig P1 (testScene\<lparr>ball := testBall\<lparr>b_x := 300\<rparr>\<rparr>))
       = Inr (Some (- 200, - 100))
   \<and> map_sum id player1
        (handlePlayerBallContact testConfig P1 (testScene\<lparr>ball := testBall\<lparr>b_x := 300\<rparr>\<rparr>))
       = Inr testPlayer1"
proof -
  let ?s2 = "testScene\<lparr>ball := testBall\<lparr>b_x := 300\<rparr>\<rparr>"
  have h1: "isGameActive testScene" and h2: "\<not> uiPaused testScene"
    and h3: "b_body (ball testScene) = Some \<lparr>velocity = (0, 0), angularVelocity = 0\<rparr>"
    by (simp_all add: testScene_def testBall_def)
  have g1: "isGameActive ?s2" and g2: "\<not> uiPaused ?s2"
    and g3: "b_body (ball ?s2) = Some \<lparr>velocity = (0, 0), angularVelocity = 0\<rparr>"
    by (simp_all add: testScene_def testBall_def)
  have k: "isProperKick (getPlayer P1 testScene) (ball testScene)"
    by (simp add: isProperKick_iff getPlayer_def testScene_def testPlayer1_def testBall_def)
  have nk: "\<not> isProperKick (getPlayer P1 ?s2) (ball ?s2)"
    by (simp add: isProperKick_iff getPlayer_def testScene_def testPlayer1_def testBall_def)
  have ki: "getKickInfo testConfig testPlayer1 = \<lparr>force = (400, - 100), type = normal, distance = 100\<rparr>"
    by (simp add: getKickInfo_def getKickForce_def testPlayer1_def testConfig_def Let_def)
  have gp: "getPlayer P1 testScene = testPlayer1" "ball testScene = testBall"
    "getPlayer P1 ?s2 = testPlayer1" "ball ?s2 = testBall\<lparr>b_x := 300\<rparr>"
    "player1 ?s2 = testPlayer1"
    by (simp_all add: getPlayer_def testScene_def)
  have px: "p_x testPlayer1 = 376" "p_y testPlayer1 = 648" "b_x testBall = 576" "b_y testBall = 622"
    by (simp_all add: testPlayer1_def testBall_def)
  from contact_kick_iff_facing [OF h1 h2 h3, of P1 testConfig] k
  obtain s' where "handlePlayerBallContact testConfig P1 testScene = Inr s'"
    and "ball s' = kick testConfig (force (getKickInfo testConfig (getPlayer P1 testScene)))
                     (p_y (getPlayer P1 testScene)) (type (getKickInfo testConfig (getPlayer P1 testScene)))
                     (DistanceBetween (p_x (getPlayer P1 testScene)) (p_y (getPlayer P1 testScene))
                        (b_x (ball testScene)) (b_y (ball testScene)))
                     (ball testScene)"
    by blast
  then have a: "map_sum id ball (handlePlayerBallContact testConfig P1 testScene)
       = Inr (kick testConfig (400, - 100) 648 normal (DistanceBetween 376 648 576 622) testBall)"
    by (simp add: gp ki px)
  from contact_kick_iff_facing [OF g1 g2 g3, of P1 testConfig] nk
  obtain s'' where "handlePlayerBallContact testConfig P1 ?s2 = Inr s''"
    and "map_option velocity (b_body (ball s''))
           = Some (if b_x (ball ?s2) > p_x (getPlayer P1 ?s2) then (200, - 100) else (- 200, - 100))"
    and "player1 s'' = player1 ?s2"
    by blast
  then have b: "map_sum id (map_option velocity \<circ> b_body \<circ> ball) (handlePlayerBallContact testConfig P1 ?s2)
             = Inr (Some (- 200, - 100))
         \<and> map_sum id player1 (handlePlayerBallContact testConfig P1 ?s2) = Inr testPlayer1"
    by (simp add: gp px)
  show ?thesis using h1 h2 h3 k a nk b by blast
qed

lemma distance_near: "DistanceBetween 376 648 406 608 = 50"
proof -
  have "sqrt 2500 = 50"
    by (rule real_sqrt_unique) simp_all
  then show ?thesis
    by (simp add: DistanceBetween_def Let_def)
qed

text \<open>
  Claim C8 as stated fails, on both counts, at one contact: player 1 is idle with 200 ms
  of kick cooldown left, facing the ball 50 away. \<open>triggerKick\<close> starts a kick only when
  the cooldown has run out, so the player, neither sliding nor kicking, is left exactly as
  before. And of the kick info \<open>(force (400, -100), type normal, distance 100)\<close> only the
  force and the type reach \<open>Ball.kick\<close>: the distance passed is the measured 50, which
  sets the velocity \<open>(1120/3, -200)\<close> where the kick info's 100 would set
  \<open>(1280/3, -200)\<close>.
\<close>
theorem contact_kick_info_counterexample:
  "isGameActive (testScene\<lparr>player1 := testPlayer1\<lparr>kickCooldown := 200\<rparr>,
                           ball := testBall\<lparr>b_x := 406, b_y := 608\<rparr>\<rparr>)
   \<and> \<not> uiPaused (testScene\<lparr>player1 := testPlayer1\<lparr>kickCooldown := 200\<rparr>,
                             ball := testBall\<lparr>b_x := 406, b_y := 608\<rparr>\<rparr>)
   \<and> isProperKick (testPlayer1\<lparr>kickCooldown := 200\<rparr>) (testBall\<lparr>b_x := 406, b_y := 608\<rparr>)
   \<and> \<not> isSliding (testPlayer1\<lparr>kickCooldown := 200\<rparr>)
   \<and> \<not> isKicking (testPlayer1\<lparr>kickCooldown := 200\<rparr>)
   \<and> map_sum id player1
        (handlePlayerBallContact testConfig P1
           (testScene\<lparr>player1 := testPlayer1\<lparr>kickCooldown := 200\<rparr>,
                      ball := testBall\<lparr>b_x := 406, b_y := 608\<rparr>\<rparr>))
       = Inr (testPlayer1\<lparr>kickCooldown := 200\<rparr>)
   \<and> playerState (testPlayer1\<lparr>kickCooldown := 200\<rparr>) = idle
   \<and> kickTimer (testPlayer1\<lparr>kickCooldown := 200\<rparr>) = 0
   \<and> getKickInfo testConfig (testPlayer1\<lparr>kickCooldown := 200\<rparr>)
       = \<lparr>force = (400, - 100), type = normal, distance = 100\<rparr>
   \<and> map_sum id (map_option velocity \<circ> b_body \<circ> ball)
        (handlePlayerBallContact testConfig P1
           (testScene\<lparr>player1 := testPlayer1\<lparr>kickCooldown := 200\<rparr>,
                      ball := testBall\<lparr>b_x := 406, b_y := 608\<rparr>\<rparr>))
       = Inr (Some (1120 / 3, - 200))
   \<and> map_option velocity
        (b_body (kick testConfig (400, - 100) 648 normal 100 (testBall\<lparr>b_x := 406, b_y := 608\<rparr>)))
       = Some (1280 / 3, - 200)"
proof -
  let ?p = "testPlayer1\<lparr>kickCooldown := 200\<rparr>"
  let ?b = "testBall\<lparr>b_x := 406, b_y := 608\<rparr>"
  let ?s = "testScene\<lparr>player1 := ?p, ball := ?b\<rparr>"
  have h1: "isGameActive ?s" and h2: "\<not> uiPaused ?s"
    and h3: "b_body (ball ?s) = Some \<lparr>velocity = (0, 0), angularVelocity = 0\<rparr>"
    and gp: "getPlayer P1 ?s = ?p" and gb: "ball ?s = ?b"
    by (simp_all add: testScene_def testBall_def getPlayer_def)
  have bd: "b_body ?b = Some \<lparr>velocity = (0, 0), angularVelocity = 0\<rparr>"
    by (simp add: testBall_def)
  have k: "isProperKick ?p ?b"
    by (simp add: isProperKick_iff testPlayer1_def testBall_def)
  have st: "playerState ?p = idle" "kickTimer ?p = 0" "kickCooldown ?p = 200"
    "p_x ?p = 376" "p_y ?p = 648" "b_x ?b = 406" "b_y ?b = 608"
    by (simp_all add: testPlayer1_def testBall_def)
  have ki: "getKickInfo testConfig ?p = \<lparr>force = (400, - 100), type = normal, distance = 100\<rparr>"
    by (simp add: getKickInfo_def getKickForce_def testPlayer1_def testConfig_def Let_def)
  have k': "isProperKick (getPlayer P1 ?s) (ball ?s)"
    using k by (simp only: gp gb)
  have f50: "kick_finalForce normal (400, - 100) 50 = (1120 / 3, - 200)"
    and f100: "kick_finalForce normal (400, - 100) 100 = (1280 / 3, - 200)"
    by (simp_all add: kick_finalForce_def vscale_def Let_def)
  have "sqrt (1120 / 3 * (1120 / 3) + 200 * 200) \<le> 720"
    by (rule real_le_lsqrt) (simp_all add: power2_eq_square)
  then have l50: "kick_limit testConfig (1120 / 3, - 200) = (1120 / 3, - 200)"
    by (intro kick_limit_unclamped) (simp add: vlength_def testConfig_def)
  have "sqrt (1280 / 3 * (1280 / 3) + 200 * 200) \<le> 720"
    by (rule real_le_lsqrt) (simp_all add: power2_eq_square)
  then have l100: "kick_limit testConfig (1280 / 3, - 200) = (1280 / 3, - 200)"
    by (intro kick_limit_unclamped) (simp add: vlength_def testConfig_def)
  have pl: "map_sum id player1 (handlePlayerBallContact testConfig P1 ?s) = Inr ?p"
    using st(1,2,3)
    by (simp add: contact_kick [OF h1 h2 h3 k'] Let_def gp setPlayer_def triggerKick_def)
  have bl: "map_sum id (map_option velocity \<circ> b_body \<circ> ball) (handlePlayerBallContact testConfig P1 ?s)
              = Inr (Some (1120 / 3, - 200))"
    using st(1,2,3)
    by (simp add: contact_kick [OF h1 h2 h3 k'] Let_def gp gb ki st(4,5,6,7) distance_near
        ball_setPlayer kick_body [OF bd] f50 l50)
  have kl: "map_option velocity (b_body (kick testConfig (400, - 100) 648 normal 100 ?b))
              = Some (1280 / 3, - 200)"
    by (simp add: kick_body [OF bd] f100 l100)
  show ?thesis
    using h1 h2 k st(1,2) ki pl bl kl by (simp add: isSliding_def isKicking_def)
qed

text \<open>
  Claim C8, amended: on a proper-kick contact \<open>Ball.kick\<close> is called with the force and the
  kick type of the player's computed kick info; and when the player is not sliding, not
  kicking and the kick cooldown has run out, the player's state becomes \<open>kicking\<close> with
  the kick timer and the cooldown started. Otherwise the player is unchanged. Which
  distance \<open>Ball.kick\<close> receives is left open.
\<close>
theorem contact_proper_kick_cooldown:
  assumes "isGameActive s" and "\<not> uiPaused s" and "b_body (ball s) = Some ballBody"
    and "isProperKick (getPlayer who s) (ball s)"
  shows "\<exists>s' dist. handlePlayerBallContact cfg who s = Inr s'
           \<and> ball s' = kick cfg (force (getKickInfo cfg (getPlayer who s))) (p_y (getPlayer who s))
                         (type (getKickInfo cfg (getPlayer who s))) dist (ball s)
           \<and> getPlayer who s' =
               (if playerState (getPlayer who s) \<noteq> sliding \<and> playerState (getPlayer who s) \<noteq> kicking
                   \<and> kickCooldown (getPlayer who s) \<le> 0
                then (getPlayer who s)\<lparr>playerState := kicking, kickTimer := kickDuration cfg * 1000,
                                       kickCooldown := 500\<rparr>
                else getPlayer who s)"
proof -
  let ?p = "getPlayer who s"
  let ?d = "DistanceBetween (p_x ?p) (p_y ?p) (b_x (ball s)) (b_y (ball s))"
  let ?s1 = "s\<lparr>ball := kick cfg (force (getKickInfo cfg ?p)) (p_y ?p) (type (getKickInfo cfg ?p)) ?d (ball s)\<rparr>"
  let ?s' = "if playerState ?p \<noteq> sliding \<and> playerState ?p \<noteq> kicking
             then setPlayer who (triggerKick cfg ?p) ?s1 else ?s1"
  have r: "handlePlayerBallContact cfg who s = Inr ?s'"
    by (simp add: contact_kick [OF assms] Let_def)
  have b: "ball ?s' = kick cfg (force (getKickInfo cfg ?p)) (p_y ?p) (type (getKickInfo cfg ?p)) ?d (ball s)"
    by (simp add: ball_setPlayer)
  have p: "getPlayer who ?s' =
             (if playerState ?p \<noteq> sliding \<and> playerState ?p \<noteq> kicking \<and> kickCooldown ?p \<le> 0
              then ?p\<lparr>playerState := kicking, kickTimer := kickDuration cfg * 1000, kickCooldown := 500\<rparr>
              else ?p)"
    by (simp add: getPlayer_setPlayer getPlayer_ball_update triggerKick_def startKick_def)
  from r b p show ?thesis by blast
qed

theorem contact_proper_kick_cooldown_witness:
  "isGameActive testScene \<and> \<not> uiPaused testScene
   \<and> b_body (ball testScene) = Some \<lparr>velocity = (0, 0), angularVelocity = 0\<rparr>
   \<and> isProperKick (getPlayer P1 testScene) (ball testScene)
   \<and> getKickInfo testConfig testPlayer1 = \<lparr>force = (400, - 100), type = normal, distance = 100\<rparr>
   \<and> (\<exists>s' dist. handlePlayerBallContact testConfig P1 testScene = Inr s'
         \<and> ball s' = kick testConfig (400, - 100) 648 normal dist testBall
         \<and> player1 s' = testPlayer1\<lparr>playerState := kicking, kickTimer := 250, kickCooldown := 500\<rparr>)"
proof -
  have h1: "isGameActive testScene" and h2: "\<not> uiPaused testScene"
    and h3: "b_body (ball testScene) = Some \<lparr>velocity = (0, 0), angularVelocity = 0\<rparr>"
    by (simp_all add: testScene_def testBall_def)
  have gp: "getPlayer P1 testScene = testPlayer1" "ball testScene = testBall"
    by (simp_all add: getPlayer_def testScene_def)
  have k: "isProperKick (getPlayer P1 testScene) (ball testScene)"
    by (simp add: isProperKick_iff gp testPlayer1_def testBall_def)
  have px: "p_y testPlayer1 = 648" "playerState testPlayer1 = idle" "kickCooldown testPlayer1 = 0"
    by (simp_all add: testPlayer1_def)
  have ki: "getKickInfo testConfig testPlayer1 = \<lparr>force = (400, - 100), type = normal, distance = 100\<rparr>"
    and kd: "kickDuration testConfig * 1000 = 250"
    by (simp_all add: getKickInfo_def getKickForce_def testPlayer1_def testConfig_def Let_def)
  from contact_proper_kick_cooldown [OF h1 h2 h3 k, of testConfig]
  obtain s' dist where r: "handlePlayerBallContact testConfig P1 testScene = Inr s'"
    and b: "ball s' = kick testConfig (400, - 100) 648 normal dist testBall"
    and p: "getPlayer P1 s' = testPlayer1\<lparr>playerState := kicking, kickTimer := 250, kickCooldown := 500\<rparr>"
    by (auto simp add: gp px ki kd)
  have "player1 s' = testPlayer1\<lparr>playerState := kicking, kickTimer := 250, kickCooldown := 500\<rparr>"
    using p by (simp add: getPlayer_def)
  with r b have "\<exists>s' dist. handlePlayerBallContact testConfig P1 testScene = Inr s'
         \<and> ball s' = kick testConfig (400, - 100) 648 normal dist testBall
         \<and> player1 s' = testPlayer1\<lparr>playerState := kicking, kickTimer := 250, kickCooldown := 500\<rparr>"
    by blast
  then show ?thesis
    using h1 h2 h3 k ki by blast
qed

section \<open>Goals and the frozen match\<close>

lemma handleGoal_inactive: "\<not> isGameActive s \<Longrightarrow> handleGoal sp now s = s"
  by (simp add: handleGoal_def)

lemma handlePlayerBallContact_inactive:
  "\<not> isGameActive s \<Longrightarrow> handlePlayerBallContact cfg who s = Inr s"
  by (simp add: handlePlayerBallContact_def)

lemma handlePlayerCollision_inactive: "\<not> isGameActive s \<Longrightarrow> handlePlayerCollision cfg s = s"
  by (simp add: handlePlayerCollision_def)

lemma checkManualCollisions_inactive:
  "\<not> isGameActive s \<Longrightarrow> checkManualCollisions cfg now s = Inr s"
  by (simp add: checkManualCollisions_def)

lemma fire_inactive: "\<not> isGameActive s \<Longrightarrow> fire cfg ev s = Inr s"
  by (cases "snd ev")
     (simp_all add: fire_def handleGoal_inactive handlePlayerBallContact_inactive
        handlePlayerCollision_inactive checkManualCollisions_inactive)

lemma fireAll_inactive: "\<not> isGameActive s \<Longrightarrow> fireAll cfg evs s = Inr s"
  by (induction evs) (simp_all add: fire_inactive)

lemma handleGoal_accepted:
  assumes "isGameActive s" and "\<not> (lastGoalTime s \<noteq> 0 \<and> now - lastGoalTime s < 1000)"
  shows "\<not> isGameActive (handleGoal sp now s)"
    and "lastGoalTime (handleGoal sp now s) = now"
    and "player1Score (handleGoal sp now s) = player1Score s + (if sp = P1 then 1 else 0)"
    and "player2Score (handleGoal sp now s) = player2Score s + (if sp = P1 then 0 else 1)"
  using assms by (auto simp add: handleGoal_def Let_def)

lemma handleGoal_changes:
  assumes "handleGoal sp now s \<noteq> s"
  shows "isGameActive s \<and> \<not> (lastGoalTime s \<noteq> 0 \<and> now - lastGoalTime s < 1000)"
  using assms by (auto simp add: handleGoal_def split: if_splits)

lemma handleGoal_debounced:
  assumes "lastGoalTime s \<noteq> 0" and "now - lastGoalTime s < 1000"
  shows "handleGoal sp now s = s"
  using assms by (simp add: handleGoal_def)

lemma manualGoalCheck_debounced:
  assumes "now - lastGoalTime s \<le> 1000"
  shows "manualGoalCheck cfg now bx by s = s"
  using assms by (simp add: manualGoalCheck_def Let_def)

lemma resetToKickoff_frozen:
  "\<not> isGameActive (resetToKickoff cfg s)
   \<and> player1Score (resetToKickoff cfg s) = player1Score s
   \<and> player2Score (resetToKickoff cfg s) = player2Score s"
  by (simp add: resetToKickoff_def Let_def)

text \<open>
  Claim C2: when a goal is accepted at time \<open>t1\<close> it adds exactly one point, and a second
  goal trigger at a time \<open>t2\<close> with \<open>t2 - t1 < 1000\<close>, by zone overlap or by the manual
  goal-line check, leaves the whole scene unchanged. The last part shows the time window
  doing this by itself: in any scene whose last goal time is \<open>t1\<close> the trigger is ignored,
  even if the match has been set active again, provided \<open>t1\<close> is not the number zero
  (which \<open>handleGoal\<close> reads as "no goal yet").
\<close>
theorem goal_debounce:
  assumes "isGameActive s"
    and "\<not> (lastGoalTime s \<noteq> 0 \<and> t1 - lastGoalTime s < 1000)"
    and "t2 - t1 < 1000"
  shows "player1Score (handleGoal sp1 t1 s) + player2Score (handleGoal sp1 t1 s)
           = player1Score s + player2Score s + 1
       \<and> handleGoal sp2 t2 (handleGoal sp1 t1 s) = handleGoal sp1 t1 s
       \<and> manualGoalCheck cfg t2 bx by (handleGoal sp1 t1 s) = handleGoal sp1 t1 s
       \<and> checkManualCollisions cfg t2 (handleGoal sp1 t1 s) = Inr (handleGoal sp1 t1 s)
       \<and> (\<forall>s2. lastGoalTime s2 = t1 \<and> (isGameActive s2 \<longrightarrow> t1 \<noteq> 0)
               \<longrightarrow> handleGoal sp2 t2 s2 = s2 \<and> manualGoalCheck cfg t2 bx by s2 = s2)"
proof -
  let ?s1 = "handleGoal sp1 t1 s"
  have inact: "\<not> isGameActive ?s1" and lgt: "lastGoalTime ?s1 = t1"
    using handleGoal_accepted [OF assms(1,2)] by simp_all
  have sc: "player1Score ?s1 + player2Score ?s1 = player1Score s + player2Score s + 1"
    using handleGoal_accepted(3,4) [OF assms(1,2), of sp1] by simp
  have m: "manualGoalCheck cfg t2 bx by s2 = s2" if "lastGoalTime s2 = t1" for s2
    using that assms(3) by (simp add: manualGoalCheck_debounced)
  have g: "handleGoal sp2 t2 s2 = s2" if "lastGoalTime s2 = t1" "isGameActive s2 \<longrightarrow> t1 \<noteq> 0" for s2
  proof (cases "isGameActive s2")
    case True
    with that assms(3) show ?thesis by (simp add: handleGoal_debounced)
  next
    case False
    then show ?thesis by (rule handleGoal_inactive)
  qed
  show ?thesis
    using sc inact lgt m g
    by (simp add: handleGoal_inactive checkManualCollisions_inactive)
qed

theorem goal_debounce_witness:
  "isGameActive testScene
   \<and> \<not> (lastGoalTime testScene \<noteq> 0 \<and> 5000 - lastGoalTime testScene < 1000)
   \<and> (5400 :: real) - 5000 < 1000
   \<and> player1Score (handleGoal P1 5000 testScene) = 1
   \<and> player2Score (handleGoal P1 5000 testScene) = 0
   \<and> handleGoal P2 5400 (handleGoal P1 5000 testScene) = handleGoal P1 5000 testScene
   \<and> lastGoalTime ((handleGoal P1 5000 testScene)\<lparr>isGameActive := True\<rparr>) = 5000
   \<and> handleGoal P2 5400 ((handleGoal P1 5000 testScene)\<lparr>isGameActive := True\<rparr>)
       = (handleGoal P1 5000 testScene)\<lparr>isGameActive := True\<rparr>"
proof -
  have h1: "isGameActive testScene" by (simp add: testScene_def)
  have h2: "\<not> (lastGoalTime testScene \<noteq> 0 \<and> 5000 - lastGoalTime testScene < 1000)"
    by (simp add: testScene_def)
  have h3: "(5400 :: real) - 5000 < 1000" by simp
  have sc: "player1Score (handleGoal P1 5000 testScene) = 1 \<and> player2Score (handleGoal P1 5000 testScene) = 0"
    by (simp add: handleGoal_def testScene_def Let_def)
  have l: "lastGoalTime ((handleGoal P1 5000 testScene)\<lparr>isGameActive := True\<rparr>) = 5000"
    by (simp add: handleGoal_def testScene_def Let_def)
  note t = goal_debounce [OF h1 h2 h3, of P1 P2 testConfig 0 0]
  from t have a: "handleGoal P2 5400 (handleGoal P1 5000 testScene) = handleGoal P1 5000 testScene"
    by blast
  from t l have b: "handleGoal P2 5400 ((handleGoal P1 5000 testScene)\<lparr>isGameActive := True\<rparr>)
       = (handleGoal P1 5000 testScene)\<lparr>isGameActive := True\<rparr>"
    by simp
  show ?thesis using h1 h2 h3 sc l a b by blast
qed

text \<open>
  Claim C10: while the active flag is false, the goal handler, the player and ball contact
  handler, the player collision handler and the manual check return the scene unchanged,
  and so does any sequence of such notifications at any times. \<open>resetToKickoff\<close> keeps the
  flag false and the scores as they are. An accepted goal (one that changes the scene)
  clears the flag, so no notification after it has any effect until the kickoff delay
  sets the flag again.
\<close>
theorem inactive_handlers_no_effect:
  assumes "\<not> isGameActive s"
  shows "handleGoal sp now s = s
       \<and> handlePlayerBallContact cfg who s = Inr s
       \<and> handlePlayerCollision cfg s = s
       \<and> checkManualCollisions cfg now s = Inr s
       \<and> fireAll cfg evs s = Inr s
       \<and> \<not> isGameActive (resetToKickoff cfg s)
       \<and> player1Score (resetToKickoff cfg s) = player1Score s
       \<and> player2Score (resetToKickoff cfg s) = player2Score s
       \<and> (handleGoal sp now s0 \<noteq> s0 \<longrightarrow>
            \<not> isGameActive (handleGoal sp now s0)
            \<and> fireAll cfg evs (handleGoal sp now s0) = Inr (handleGoal sp now s0))"
proof -
  have acc: "\<not> isGameActive (handleGoal sp now s0)" if "handleGoal sp now s0 \<noteq> s0"
    using handleGoal_changes [OF that] by (simp add: handleGoal_accepted(1))
  show ?thesis
    using assms acc resetToKickoff_frozen [of cfg s]
    by (simp add: handleGoal_inactive handlePlayerBallContact_inactive
        handlePlayerCollision_inactive checkManualCollisions_inactive fireAll_inactive)
qed

theorem inactive_handlers_no_effect_witness:
  "\<not> isGameActive (testScene\<lparr>isGameActive := False\<rparr>)
   \<and> handleGoal P1 5000 (testScene\<lparr>isGameActive := False\<rparr>) = testScene\<lparr>isGameActive := False\<rparr>
   \<and> handlePlayerBallContact testConfig P1 (testScene\<lparr>isGameActive := False\<rparr>)
       = Inr (testScene\<lparr>isGameActive := False\<rparr>)
   \<and> handlePlayerCollision testConfig (testScene\<lparr>isGameActive := False\<rparr>)
       = testScene\<lparr>isGameActive := False\<rparr>
   \<and> checkManualCollisions testConfig 5000 (testScene\<lparr>isGameActive := False\<rparr>)
       = Inr (testScene\<lparr>isGameActive := False\<rparr>)
   \<and> handleGoal P1 5000 testScene \<noteq> testScene
   \<and> \<not> isGameActive (handleGoal P1 5000 testScene)
   \<and> fireAll testConfig [(5100, RightGoalZoneOverlap), (5200, BallPlayerOverlap P1),
                           (5300, PlayersOverlap), (6500, ManualCollisionCheck),
                           (6600, LeftGoalZoneOverlap)] (handleGoal P1 5000 testScene)
       = Inr (handleGoal P1 5000 testScene)"
proof -
  let ?evs = "[(5100, RightGoalZoneOverlap), (5200, BallPlayerOverlap P1),
               (5300, PlayersOverlap), (6500, ManualCollisionCheck), (6600, LeftGoalZoneOverlap)]"
  have h: "\<not> isGameActive (testScene\<lparr>isGameActive := False\<rparr>)" by simp
  have "player1Score (handleGoal P1 5000 testScene) = 1"
    by (simp add: handleGoal_def testScene_def Let_def)
  moreover have "player1Score testScene = 0"
    by (simp add: testScene_def)
  ultimately have ne: "handleGoal P1 5000 testScene \<noteq> testScene"
    by auto
  from inactive_handlers_no_effect [OF h, of P1 5000 testConfig P1 ?evs testScene] ne
  show ?thesis
    using h by blast
qed

end
